theory Spec2Isabelle
  imports Complex_Main "HOL-Library.Sublist"
begin

section \<open>DataProcessor (core/data-processor.js)\<close>

subsection \<open>JavaScript values read by the processor\<close>

text \<open>
  A JavaScript number other than \<open>NaN\<close> is a finite number or one of the two
  infinities; \<open>NaN\<close> is \<open>None\<close> of \<open>number option\<close>.  Finite numbers are taken as
  exact reals: the rounding of IEEE doubles, and the overflow of an arithmetic result, are
  outside the model.  The order is that of JavaScript's \<open><=\<close>.
\<close>

datatype number = NegInfinity | Finite real | Infinity

instantiation number :: linorder
begin

fun less_eq_number :: "number \<Rightarrow> number \<Rightarrow> bool" where
  "less_eq_number NegInfinity y = True"
| "less_eq_number (Finite a) NegInfinity = False"
| "less_eq_number (Finite a) (Finite b) = (a \<le> b)"
| "less_eq_number (Finite a) Infinity = True"
| "less_eq_number Infinity Infinity = True"
| "less_eq_number Infinity y = False"

definition less_number :: "number \<Rightarrow> number \<Rightarrow> bool" where
  "less_number x y = (x \<le> y \<and> \<not> y \<le> x)"

instance
proof
  fix x y z :: number
  show "(x < y) = (x \<le> y \<and> \<not> y \<le> x)"
    by (simp add: less_number_def)
  show "x \<le> x"
    by (cases x) simp_all
  show "x \<le> y \<Longrightarrow> y \<le> z \<Longrightarrow> x \<le> z"
    by (cases x; cases y; cases z) simp_all
  show "x \<le> y \<Longrightarrow> y \<le> x \<Longrightarrow> x = y"
    by (cases x; cases y) simp_all
  show "x \<le> y \<or> y \<le> x"
    by (cases x; cases y) auto
qed

end

text \<open>
  A node's \<open>value\<close> field arrives as JSON: it is absent (or \<open>null\<close>), a number or a
  string.  What the engine does is taken as a parameter of the model: what \<open>parseFloat\<close>
  reads from a string (a number, or \<open>NaN\<close>), and how many arguments a call may spread
  (\<open>Math.max(...xs)\<close> throws a \<open>RangeError\<close> on a longer array).
\<close>

datatype jsval = Undefined | Num number | Str string

record js_engine =
  parseFloat_of :: "string \<Rightarrow> number option"
  max_arguments :: nat

text \<open>An engine for the examples below: a call takes 65536 arguments, and the one
  string the examples use, \<open>abc\<close>, reads as \<open>NaN\<close>.\<close>

definition example_engine :: js_engine where
  "example_engine = \<lparr> parseFloat_of = (\<lambda>s. None), max_arguments = 65536 \<rparr>"

definition truthy :: "jsval \<Rightarrow> bool" where
  "truthy v = (case v of Undefined \<Rightarrow> False | Num x \<Rightarrow> x \<noteq> Finite 0 | Str s \<Rightarrow> s \<noteq> [])"

text \<open>The JavaScript expression \<open>a || b\<close>.\<close>

definition or_else :: "jsval \<Rightarrow> jsval \<Rightarrow> jsval" where
  "or_else a b = (if truthy a then a else b)"

definition parseFloat :: "js_engine \<Rightarrow> jsval \<Rightarrow> number option" where
  "parseFloat E v =
     (case v of Undefined \<Rightarrow> None | Num x \<Rightarrow> Some x | Str s \<Rightarrow> parseFloat_of E s)"

subsection \<open>Raw and processed entities\<close>

text \<open>
  The fields the size, degree and edge computations read or write.  \<open>label\<close>,
  \<open>color\<close>, \<open>x\<close>, \<open>y\<close> (copied, or drawn from \<open>Math.random\<close> when absent) and the
  edge's \<open>value\<close> with the visual \<open>width\<close> computed from it take no part in them
  and are left out.  A processed entity extends the raw one, as the source's object spread
  \<open>{...node, size: ...}\<close> does; the source's \<open>metadata: {degree, importance}\<close> is
  flattened.  A size, and what is computed from it, is a finite number or \<open>NaN\<close>
  (\<open>None\<close>).
\<close>

record raw_node =
  nid :: string
  nvalue :: jsval

record raw_edge =
  efrom :: string
  eto :: string

record pnode = raw_node +
  node_size :: "real option"
  collisionRadius :: "real option"
  degree :: nat
  importance :: "real option"

record pedge = raw_edge +
  source :: pnode
  target :: pnode
  edge_length :: "real option"

record processed =
  processedNodes :: "pnode list"
  processedEdges :: "pedge list"
  consoleErrors :: "string list"

subsection \<open>\<open>_calculateNodeSize\<close>\<close>

text \<open>
  \<open>d3.scaleLinear().domain([d0, d1]).range([r0, r1]).clamp(true)\<close>, called with
  \<open>d0 < d1\<close>: the argument is clamped to the domain, normalised by
  \<open>(x - d0) / (d1 - d0)\<close> and interpolated as \<open>r0 * (1 - t) + r1 * t\<close>.  With
  \<open>d1\<close> infinite the divisor is infinite: a finite numerator gives \<open>t = 0\<close>, an
  infinite one \<open>NaN\<close>.  With \<open>d0\<close> infinite every numerator is infinite or \<open>NaN\<close>,
  and so is the result \<open>NaN\<close>.
\<close>

definition scaleLinear :: "number \<Rightarrow> number \<Rightarrow> real \<Rightarrow> real \<Rightarrow> number \<Rightarrow> real option" where
  "scaleLinear d0 d1 r0 r1 x =
     (case (d0, d1) of
        (Finite a, Finite b) \<Rightarrow>
          (case max d0 (min d1 x) of
             Finite xc \<Rightarrow> (let t = (xc - a) / (b - a) in Some (r0 * (1 - t) + r1 * t))
           | _ \<Rightarrow> None)
      | (Finite a, Infinity) \<Rightarrow>
          (if x = Infinity then None else Some (r0 * (1 - 0) + r1 * 0))
      | _ \<Rightarrow> None)"

definition validValues :: "js_engine \<Rightarrow> raw_node list \<Rightarrow> number list" where
  "validValues E allNodes = List.map_filter (\<lambda>d. parseFloat E (nvalue d)) allNodes"

text \<open>\<open>Math.max(...xs)\<close> and \<open>Math.min(...xs)\<close>: the array is spread into the
  arguments of the call, which throws when there are too many.\<close>

datatype size_error = RangeError

definition spread_max :: "js_engine \<Rightarrow> number list \<Rightarrow> size_error + number" where
  "spread_max E xs =
     (if length xs > max_arguments E then Inl RangeError
      else if xs = [] then Inr NegInfinity else Inr (Max (set xs)))"

definition spread_min :: "js_engine \<Rightarrow> number list \<Rightarrow> size_error + number" where
  "spread_min E xs =
     (if length xs > max_arguments E then Inl RangeError
      else if xs = [] then Inr Infinity else Inr (Min (set xs)))"

text \<open>The body of the \<open>try\<close> block.\<close>

definition node_size_try :: "js_engine \<Rightarrow> jsval \<Rightarrow> raw_node list \<Rightarrow> size_error + real option" where
  "node_size_try E v allNodes =
     (case parseFloat E v of
        None \<Rightarrow> Inr (Some 12)
      | Some nodeValue \<Rightarrow>
          if length allNodes = 1 then Inr (Some 12)
          else if validValues E allNodes = [] then Inr (Some 12)
          else
            (case spread_max E (validValues E allNodes) of
               Inl err \<Rightarrow> Inl err
             | Inr maxValue \<Rightarrow>
                 (case spread_min E (validValues E allNodes) of
                    Inl err \<Rightarrow> Inl err
                  | Inr minValue \<Rightarrow>
                      if maxValue = minValue then Inr (Some ((12 + 48) / 2))
                      else Inr (scaleLinear minValue maxValue 12 48 nodeValue))))"

text \<open>The \<open>catch\<close> logs the error and returns the fallback size 12.\<close>

definition calculateNodeSize :: "js_engine \<Rightarrow> jsval \<Rightarrow> raw_node list \<Rightarrow> real option" where
  "calculateNodeSize E v allNodes =
     (case node_size_try E v allNodes of Inl err \<Rightarrow> Some 12 | Inr sz \<Rightarrow> sz)"

subsection \<open>\<open>_calculateNodeDegrees\<close>, \<open>_calculateImportance\<close>, \<open>_calculateCollisionRadius\<close>\<close>

text \<open>\<open>this.nodeDegrees.get(k) || 0\<close>, and
  \<open>this.nodeDegrees.set(k, (this.nodeDegrees.get(k) || 0) + 1)\<close>.\<close>

definition degree_of :: "(string \<rightharpoonup> nat) \<Rightarrow> string \<Rightarrow> nat" where
  "degree_of m k = (case m k of None \<Rightarrow> 0 | Some c \<Rightarrow> c)"

definition count_endpoint :: "string \<Rightarrow> (string \<rightharpoonup> nat) \<Rightarrow> (string \<rightharpoonup> nat)" where
  "count_endpoint k m = m(k \<mapsto> degree_of m k + 1)"

definition calculateNodeDegrees :: "raw_edge list \<Rightarrow> (string \<rightharpoonup> nat)" where
  "calculateNodeDegrees edges =
     fold (\<lambda>edge m. count_endpoint (eto edge) (count_endpoint (efrom edge) m)) edges Map.empty"

text \<open>Arithmetic on \<open>NaN\<close> gives \<open>NaN\<close>, and so do \<open>Math.pow\<close> and \<open>Math.max\<close>
  of it.\<close>

definition calculateImportance :: "real option \<Rightarrow> nat \<Rightarrow> real option" where
  "calculateImportance sz deg =
     (case sz of
        None \<Rightarrow> None
      | Some s \<Rightarrow>
          (let normalizedSize = s / 48; normalizedDegree = min (real deg / 10) 1
           in Some ((normalizedSize * normalizedDegree) powr (3 / 2))))"

definition calculateCollisionRadius :: "real option \<Rightarrow> nat \<Rightarrow> real option" where
  "calculateCollisionRadius baseSize deg =
     (case (baseSize, calculateImportance baseSize deg) of
        (Some s, Some imp) \<Rightarrow>
          (let baseRadius = s * (3 / 2);
               degreeBonus = (real deg) powr (7 / 10) * 2;
               importanceMultiplier = 1 + imp * 2
           in Some (max (baseRadius * importanceMultiplier + degreeBonus) baseRadius))
      | _ \<Rightarrow> None)"

subsection \<open>\<open>_processNodes\<close>, \<open>_processEdges\<close>, \<open>processData\<close>\<close>

definition processNode :: "js_engine \<Rightarrow> (string \<rightharpoonup> nat) \<Rightarrow> raw_node list \<Rightarrow> raw_node \<Rightarrow> pnode" where
  "processNode E nodeDegrees nodes node =
     (let baseSize = calculateNodeSize E (or_else (nvalue node) (Num (Finite 1))) nodes;
          deg = degree_of nodeDegrees (nid node)
      in \<lparr> nid = nid node, nvalue = nvalue node,
           node_size = baseSize,
           collisionRadius = calculateCollisionRadius baseSize deg,
           degree = deg,
           importance = calculateImportance baseSize deg \<rparr>)"

definition processNodes :: "js_engine \<Rightarrow> (string \<rightharpoonup> nat) \<Rightarrow> raw_node list \<Rightarrow> pnode list" where
  "processNodes E nodeDegrees nodes = map (processNode E nodeDegrees nodes) nodes"

text \<open>\<open>new Map(processedNodes.map(node => [node.id, node]))\<close>: a later entry replaces
  an earlier one with the same id.\<close>

definition nodeMap_of :: "pnode list \<Rightarrow> (string \<rightharpoonup> pnode)" where
  "nodeMap_of pns = fold (\<lambda>node m. m(nid node \<mapsto> node)) pns Map.empty"

text \<open>\<open>baseLength * (1 + Math.max(sourceImportance, targetImportance) * 2)\<close>.\<close>

definition length_of_edge :: "real option \<Rightarrow> real option \<Rightarrow> real option" where
  "length_of_edge sourceImportance targetImportance =
     (case (sourceImportance, targetImportance) of
        (Some a, Some b) \<Rightarrow> Some (200 * (1 + max a b * 2))
      | _ \<Rightarrow> None)"

text \<open>One edge of the \<open>edges.map\<close> callback: \<open>Inl\<close> is the \<open>console.error\<close> line and
  the \<open>null\<close> the callback returns, \<open>Inr\<close> the processed edge.\<close>

definition processEdge :: "(string \<rightharpoonup> pnode) \<Rightarrow> raw_edge \<Rightarrow> string + pedge" where
  "processEdge nodeMap edge =
     (case nodeMap (efrom edge) of
        None \<Rightarrow> Inl (''Invalid edge: '' @ efrom edge @ '' -> '' @ eto edge)
      | Some src \<Rightarrow>
         (case nodeMap (eto edge) of
            None \<Rightarrow> Inl (''Invalid edge: '' @ efrom edge @ '' -> '' @ eto edge)
          | Some tgt \<Rightarrow>
              Inr \<lparr> efrom = efrom edge, eto = eto edge, source = src, target = tgt,
                    edge_length = length_of_edge (importance src) (importance tgt) \<rparr>))"

text \<open>\<open>.filter(edge => edge !== null)\<close> keeps the processed edges; the console keeps
  the error lines.\<close>

definition non_null :: "(string + pedge) list \<Rightarrow> pedge list" where
  "non_null results = [e. Inr e \<leftarrow> results]"

definition console_lines :: "(string + pedge) list \<Rightarrow> string list" where
  "console_lines results = [msg. Inl msg \<leftarrow> results]"

definition processData :: "js_engine \<Rightarrow> raw_node list \<Rightarrow> raw_edge list \<Rightarrow> processed" where
  "processData E nodes edges =
     (let nodeDegrees = calculateNodeDegrees edges;
          pns = processNodes E nodeDegrees nodes;
          results = map (processEdge (nodeMap_of pns)) edges
      in \<lparr> processedNodes = pns,
           processedEdges = non_null results,
           consoleErrors = console_lines results \<rparr>)"

section \<open>EventManager (core/events.js)\<close>

text \<open>
  A JavaScript \<open>Set\<close> keeps its members in insertion order, each once; it is a list
  here, and \<open>add\<close> and \<open>delete\<close> are written out.  \<open>listeners\<close> is the
  \<open>Map\<close> from event name to the \<open>Set\<close> of callbacks.  Callbacks are compared by
  identity; the type \<open>'c\<close> is that identity.
\<close>

definition set_add :: "'a \<Rightarrow> 'a list \<Rightarrow> 'a list" where
  "set_add x xs = (if x \<in> set xs then xs else xs @ [x])"

definition set_delete :: "'a \<Rightarrow> 'a list \<Rightarrow> 'a list" where
  "set_delete x xs = remove1 x xs"

record 'c event_manager =
  listeners :: "string \<rightharpoonup> 'c list"

definition new_EventManager :: "'c event_manager" where
  "new_EventManager = \<lparr> listeners = Map.empty \<rparr>"

definition on :: "string \<Rightarrow> 'c \<Rightarrow> 'c event_manager \<Rightarrow> 'c event_manager" where
  "on eventName callback em =
     (let callbacks = (case listeners em eventName of None \<Rightarrow> [] | Some cbs \<Rightarrow> cbs)
      in em\<lparr> listeners := (listeners em)(eventName \<mapsto> set_add callback callbacks) \<rparr>)"

definition off :: "string \<Rightarrow> 'c \<Rightarrow> 'c event_manager \<Rightarrow> 'c event_manager" where
  "off eventName callback em =
     (case listeners em eventName of
        None \<Rightarrow> em
      | Some callbacks \<Rightarrow>
          em\<lparr> listeners := (listeners em)(eventName \<mapsto> set_delete callback callbacks) \<rparr>)"

text \<open>
  \<open>emit\<close> calls every callback of the name with the data, in insertion order, and
  catches what a callback throws.  The result is the list of calls made and the number of
  errors logged; \<open>throws\<close> says which calls throw.  A callback is taken not to register
  or unregister listeners while it runs.
\<close>

definition emit :: "('c \<Rightarrow> 'd \<Rightarrow> bool) \<Rightarrow> string \<Rightarrow> 'd \<Rightarrow> 'c event_manager \<Rightarrow> ('c \<times> 'd) list \<times> nat" where
  "emit throws eventName data em =
     (case listeners em eventName of
        None \<Rightarrow> ([], 0)
      | Some callbacks \<Rightarrow>
          (map (\<lambda>callback. (callback, data)) callbacks,
           length (filter (\<lambda>callback. throws callback data) callbacks)))"

definition cleanup_events :: "'c event_manager \<Rightarrow> 'c event_manager" where
  "cleanup_events em = em\<lparr> listeners := Map.empty \<rparr>"

datatype 'c bus_call = On string 'c | Off string 'c | Cleanup

fun bus_step :: "'c bus_call \<Rightarrow> 'c event_manager \<Rightarrow> 'c event_manager" where
  "bus_step (On name cb) em = on name cb em"
| "bus_step (Off name cb) em = off name cb em"
| "bus_step Cleanup em = cleanup_events em"

text \<open>The manager after a sequence of calls on a fresh one.\<close>

definition bus_after :: "'c bus_call list \<Rightarrow> 'c event_manager" where
  "bus_after calls = fold bus_step calls new_EventManager"

text \<open>The representation invariant of the \<open>Set\<close>s: no callback stands twice.\<close>

definition sets_distinct :: "'c event_manager \<Rightarrow> bool" where
  "sets_distinct em = (\<forall>name cbs. listeners em name = Some cbs \<longrightarrow> distinct cbs)"

section \<open>NetworkVisualization: selection and the transition queue (core/network.js)\<close>

text \<open>
  The controller reads two fields of a node object, \<open>id\<close> and \<open>color\<close>.  An edge
  element of the renderer carries its two node objects.
\<close>

record vnode =
  vid :: string
  color :: string

record vedge =
  vsource :: vnode
  vtarget :: vnode

datatype transition_type = Select | Unselect | Restore

text \<open>\<open>targetColor\<close> is \<open>None\<close> for JavaScript's \<open>null\<close> and \<open>undefined\<close>.\<close>

record transition =
  ttype :: transition_type
  nodeId :: string
  targetColor :: "string option"
  connectedNodes :: "vnode list"

datatype ui_event =
    NodeSelected string "string list"
  | NodeUnselected string "string list"
  | SelectionCleared

datatype outcome = Resolved | Rejected

text \<open>
  The controller's state, and beside it what it does to its collaborators:
  \<open>animations\<close> lists the calls of \<open>renderer.animateColorTransition\<close> in the order
  made, \<open>awaited\<close> those of them whose promise \<open>_processTransitionQueue\<close> still
  awaits, \<open>emitted\<close> the events passed to \<open>events.emit\<close>, \<open>transitionErrors\<close>
  counts the \<open>console.error('Transition failed:', ...)\<close> lines.  \<open>edgeElements\<close> is
  the renderer's edge selection, read by \<open>getConnectedNodes\<close>.
\<close>

record controller =
  selectedNodes :: "string list"
  selectionColor :: "string option"
  originalColors :: "string \<rightharpoonup> string"
  transitionQueue :: "transition list"
  isTransitioning :: bool
  edgeElements :: "vedge list"
  animations :: "transition list"
  awaited :: "transition list"
  emitted :: "ui_event list"
  transitionErrors :: nat

definition new_controller :: "vedge list \<Rightarrow> controller" where
  "new_controller edges =
     \<lparr> selectedNodes = [], selectionColor = None, originalColors = Map.empty,
       transitionQueue = [], isTransitioning = False, edgeElements = edges,
       animations = [], awaited = [], emitted = [], transitionErrors = 0 \<rparr>"

text \<open>\<open>renderer.getConnectedNodes(nodeId)\<close>: a \<open>Set\<close> of the node objects at the other
  end of the edges that touch the node.\<close>

definition getConnectedNodes :: "vedge list \<Rightarrow> string \<Rightarrow> vnode list" where
  "getConnectedNodes edges nid' =
     fold (\<lambda>d acc. if vid (vsource d) = nid' then set_add (vtarget d) acc
                    else if vid (vtarget d) = nid' then set_add (vsource d) acc
                    else acc) edges []"

text \<open>
  \<open>_processTransitionQueue\<close> up to its \<open>await\<close>: the guard, the flag, the
  \<open>shift\<close> and the call of the renderer.  \<open>animateColorTransition\<close> is an
  \<open>async\<close> method, so the call returns a promise, whatever happens inside it, and the
  function is suspended until the promise settles.  (The controller is taken before its
  \<open>cleanup\<close>, which alone removes the renderer.)
\<close>

definition processTransitionQueue :: "controller \<Rightarrow> controller" where
  "processTransitionQueue c =
     (if isTransitioning c then c
      else case transitionQueue c of
             [] \<Rightarrow> c
           | t # rest \<Rightarrow>
               c\<lparr> isTransitioning := True, transitionQueue := rest,
                  animations := animations c @ [t], awaited := awaited c @ [t] \<rparr>)"

text \<open>
  The rest of \<open>_processTransitionQueue\<close>, run when the awaited promise settles: the
  \<open>catch\<close> logs a rejection, the flag is cleared and the function calls itself.
  With no promise awaited there is nothing to resume.
\<close>

definition transitionSettled :: "outcome \<Rightarrow> controller \<Rightarrow> controller" where
  "transitionSettled res c =
     (case awaited c of
        [] \<Rightarrow> c
      | t # rest \<Rightarrow>
          processTransitionQueue
            (c\<lparr> awaited := rest,
                transitionErrors := (if res = Rejected then transitionErrors c + 1
                                     else transitionErrors c),
                isTransitioning := False \<rparr>))"

definition queueTransition :: "transition \<Rightarrow> controller \<Rightarrow> controller" where
  "queueTransition t c =
     (let c1 = c\<lparr> transitionQueue := transitionQueue c @ [t] \<rparr>
      in if \<not> isTransitioning c1 then processTransitionQueue c1 else c1)"

definition events_emit :: "ui_event \<Rightarrow> controller \<Rightarrow> controller" where
  "events_emit ev c = c\<lparr> emitted := emitted c @ [ev] \<rparr>"

definition selectNode :: "vnode \<Rightarrow> controller \<Rightarrow> controller" where
  "selectNode node c =
     (let c1 = (if originalColors c (vid node) = None
                then c\<lparr> originalColors := (originalColors c)(vid node \<mapsto> color node) \<rparr>
                else c);
          c2 = (if selectedNodes c1 = [] then c1\<lparr> selectionColor := Some (color node) \<rparr>
                else c1);
          c3 = queueTransition
                 \<lparr> ttype = Select, nodeId = vid node, targetColor = selectionColor c2,
                   connectedNodes = getConnectedNodes (edgeElements c2) (vid node) \<rparr> c2;
          c4 = c3\<lparr> selectedNodes := set_add (vid node) (selectedNodes c3) \<rparr>
      in events_emit (NodeSelected (vid node) (selectedNodes c4)) c4)"

definition restoreAllColors :: "controller \<Rightarrow> controller" where
  "restoreAllColors c =
     (let c1 = fold (\<lambda>nid' c'. queueTransition
                       \<lparr> ttype = Restore, nodeId = nid',
                         targetColor = originalColors c' nid',
                         connectedNodes = getConnectedNodes (edgeElements c') nid' \<rparr> c')
                 (selectedNodes c) c;
          c2 = c1\<lparr> selectedNodes := [], selectionColor := None \<rparr>
      in events_emit SelectionCleared c2)"

definition unselectNode :: "vnode \<Rightarrow> controller \<Rightarrow> controller" where
  "unselectNode node c =
     (let c1 = queueTransition
                 \<lparr> ttype = Unselect, nodeId = vid node,
                   targetColor = originalColors c (vid node),
                   connectedNodes = getConnectedNodes (edgeElements c) (vid node) \<rparr> c;
          c2 = c1\<lparr> selectedNodes := set_delete (vid node) (selectedNodes c1) \<rparr>;
          c3 = (if selectedNodes c2 = [] then restoreAllColors c2 else c2)
      in events_emit (NodeUnselected (vid node) (selectedNodes c3)) c3)"

text \<open>\<open>_handleNodeClick(node)\<close>; \<open>None\<close> is a call without a node.\<close>

definition handleNodeClick :: "vnode option \<Rightarrow> controller \<Rightarrow> controller" where
  "handleNodeClick node c =
     (case node of
        None \<Rightarrow> c
      | Some n \<Rightarrow> if vid n \<in> set (selectedNodes c) then unselectNode n c else selectNode n c)"

definition handleBackgroundClick :: "controller \<Rightarrow> controller" where
  "handleBackgroundClick c = (if selectedNodes c \<noteq> [] then restoreAllColors c else c)"

text \<open>What can happen to a controller: a click on a node, a click on the background, or
  the settling of the promise it awaits.\<close>

datatype controller_event = NodeClick vnode | BackgroundClick | Settled outcome

fun controller_step :: "controller_event \<Rightarrow> controller \<Rightarrow> controller" where
  "controller_step (NodeClick n) c = handleNodeClick (Some n) c"
| "controller_step BackgroundClick c = handleBackgroundClick c"
| "controller_step (Settled res) c = transitionSettled res c"

definition controller_after :: "vedge list \<Rightarrow> controller_event list \<Rightarrow> controller" where
  "controller_after edges evs = fold controller_step evs (new_controller edges)"

text \<open>The same with the nodes of one dataset, whose colours \<open>col\<close> gives by id.\<close>

datatype dataset_event = Click string | Background | Settle outcome

fun dataset_step :: "(string \<Rightarrow> string) \<Rightarrow> dataset_event \<Rightarrow> controller_event" where
  "dataset_step col (Click i) = NodeClick \<lparr> vid = i, color = col i \<rparr>"
| "dataset_step col Background = BackgroundClick"
| "dataset_step col (Settle res) = Settled res"

definition dataset_after :: "(string \<Rightarrow> string) \<Rightarrow> vedge list \<Rightarrow> dataset_event list \<Rightarrow> controller" where
  "dataset_after col edges evs = controller_after edges (map (dataset_step col) evs)"

text \<open>
  Notions for the properties of the queue and of the selection.  \<open>queue_history\<close>: the descriptors
  already handed to the renderer, followed by those still queued.  \<open>queue_ok\<close>: either
  nothing is in flight, no promise is awaited and the queue is empty, or the flag is set
  and the one promise awaited is that of the call made last.  \<open>colors_of\<close>: every
  colour remembered in \<open>originalColors\<close> is the colour the dataset gives that id.
\<close>

definition queue_history :: "controller \<Rightarrow> transition list" where
  "queue_history c = animations c @ transitionQueue c"

definition queue_ok :: "controller \<Rightarrow> bool" where
  "queue_ok c =
     ((\<not> isTransitioning c \<and> awaited c = [] \<and> transitionQueue c = []) \<or>
      (isTransitioning c \<and> awaited c = [last (animations c)]))"

text \<open>\<open>selected_known\<close>: every selected id has its colour remembered.\<close>

definition selected_known :: "controller \<Rightarrow> bool" where
  "selected_known c = (\<forall>i \<in> set (selectedNodes c). originalColors c i \<noteq> None)"

definition colors_of :: "(string \<Rightarrow> string) \<Rightarrow> controller \<Rightarrow> bool" where
  "colors_of col c = (\<forall>i orig. originalColors c i = Some orig \<longrightarrow> orig = col i)"

section \<open>NetworkSimulation (core/simulation.js)\<close>

text \<open>
  The wrapper's own fields, the three callback slots (\<open>True\<close>: a callback is
  registered) and the calls made to them, in order; \<open>ProgressCb t m\<close> is the call of
  the progress callback with \<open>Math.min(100, Math.round((t / m) * 100))\<close>, a percentage
  computed in doubles and left uncomputed here.  \<open>alpha\<close> and \<open>timer_on\<close> are the
  state of the \<open>d3.forceSimulation\<close> object the wrapper holds: its energy and whether
  its internal timer runs.
\<close>

datatype sim_callback = TickCb | ProgressCb nat nat | CompleteCb

record simulation =
  isRunning :: bool
  tickCount :: nat
  maxTicks :: nat
  tick_registered :: bool
  progress_registered :: bool
  complete_registered :: bool
  callback_calls :: "sim_callback list"
  alpha :: real
  timer_on :: bool

text \<open>The values \<open>_initialize\<close> configures: \<open>.alphaDecay(0.02)\<close>,
  \<open>.alphaMin(0.001)\<close>; \<open>alphaTarget\<close> keeps d3's default 0.\<close>

definition alphaDecay :: real where "alphaDecay = 2 / 100"
definition alphaMin :: real where "alphaMin = 1 / 1000"
definition alphaTarget :: real where "alphaTarget = 0"

text \<open>The constructor and \<open>_initialize\<close>: \<open>.alpha(0.5)\<close>, then \<open>this.simulation.stop()\<close>.\<close>

definition new_NetworkSimulation :: simulation where
  "new_NetworkSimulation =
     \<lparr> isRunning = False, tickCount = 0, maxTicks = 300,
       tick_registered = False, progress_registered = False, complete_registered = False,
       callback_calls = [], alpha = 1 / 2, timer_on = False \<rparr>"

definition onStabilizationComplete :: "simulation \<Rightarrow> simulation" where
  "onStabilizationComplete sim = sim\<lparr> complete_registered := True \<rparr>"

definition onStabilizationProgress :: "simulation \<Rightarrow> simulation" where
  "onStabilizationProgress sim = sim\<lparr> progress_registered := True \<rparr>"

definition onTick_register :: "simulation \<Rightarrow> simulation" where
  "onTick_register sim = sim\<lparr> tick_registered := True \<rparr>"

definition restart :: "simulation \<Rightarrow> simulation" where
  "restart sim = sim\<lparr> isRunning := True, tickCount := 0, alpha := 1, timer_on := True \<rparr>"

definition stop :: "simulation \<Rightarrow> simulation" where
  "stop sim = sim\<lparr> isRunning := False, timer_on := False \<rparr>"

text \<open>\<open>setData\<close> places the nodes and hands them to d3; of the state above it resets
  the tick counter.\<close>

definition setData :: "simulation \<Rightarrow> simulation" where
  "setData sim = sim\<lparr> tickCount := 0 \<rparr>"

definition onSimulationEnd :: "simulation \<Rightarrow> simulation" where
  "onSimulationEnd sim =
     (let sim1 = sim\<lparr> isRunning := False \<rparr>
      in if complete_registered sim1
         then sim1\<lparr> callback_calls := callback_calls sim1 @ [CompleteCb] \<rparr>
         else sim1)"

definition onTick :: "simulation \<Rightarrow> simulation" where
  "onTick sim =
     (if \<not> isRunning sim then sim
      else
        let sim1 = sim\<lparr> tickCount := tickCount sim + 1 \<rparr>;
            sim2 = (if tick_registered sim1
                    then sim1\<lparr> callback_calls := callback_calls sim1 @ [TickCb] \<rparr>
                    else sim1);
            sim3 = (if progress_registered sim2
                    then sim2\<lparr> callback_calls := callback_calls sim2 @
                             [ProgressCb (tickCount sim2) (maxTicks sim2)] \<rparr>
                    else sim2)
        in if tickCount sim3 \<ge> maxTicks sim3 then onSimulationEnd sim3 else sim3)"

text \<open>
  One firing of d3's internal timer, as \<open>d3-force\<close> documents its \<open>step\<close>: the energy
  moves toward its target by the decay rate, the \<open>tick\<close> listener runs, and once the
  energy is below \<open>alphaMin\<close> the timer stops and the \<open>end\<close> listener runs.  The
  listeners are the ones \<open>_initialize\<close> attaches: \<open>_onTick\<close> and \<open>_onSimulationEnd\<close>.
  With the timer stopped nothing fires.
\<close>

definition d3_step :: "simulation \<Rightarrow> simulation" where
  "d3_step sim =
     (if \<not> timer_on sim then sim
      else
        let sim1 = sim\<lparr> alpha := alpha sim + (alphaTarget - alpha sim) * alphaDecay \<rparr>;
            sim2 = onTick sim1
        in if alpha sim2 < alphaMin then onSimulationEnd (sim2\<lparr> timer_on := False \<rparr>)
           else sim2)"

text \<open>A run: \<open>restart()\<close>, then the timer firing \<open>n\<close> times with no call of \<open>stop\<close> or
  \<open>restart\<close> in between.\<close>

definition run_ticks :: "nat \<Rightarrow> simulation \<Rightarrow> simulation" where
  "run_ticks n sim = (d3_step ^^ n) (restart sim)"

definition completions :: "simulation \<Rightarrow> nat" where
  "completions sim = length (filter (\<lambda>cb. cb = CompleteCb) (callback_calls sim))"

section \<open>NetworkVisualization: \<open>updateData\<close> (core/network.js)\<close>

text \<open>
  What \<open>updateData\<close> touches: the \<open>isInitialized\<close> flag, the simulation, and the
  calls it makes on its collaborators, recorded in order with their arguments.
\<close>

datatype component_call =
    RendererInitialize
  | ProcessData "raw_node list" "raw_edge list"
  | UpdateElements "pnode list" "pedge list"
  | SimulationStop
  | SimulationSetData "pnode list" "pedge list"
  | SimulationRestart

record visualization =
  isInitialized :: bool
  layout :: simulation
  component_calls :: "component_call list"

text \<open>The two calls of the renderer that can throw; \<open>True\<close>: the call throws.\<close>

record faults =
  renderer_initialize_throws :: bool
  updateElements_throws :: bool

datatype update_error = InitializationFailed | UpdateFailed

text \<open>\<open>_initialize\<close>: the renderer first, then a new simulation with its three
  callbacks, then the flag.  An error is logged and thrown again.\<close>

definition initialize :: "faults \<Rightarrow> visualization \<Rightarrow> visualization \<times> update_error option" where
  "initialize f v =
     (let v1 = v\<lparr> component_calls := component_calls v @ [RendererInitialize] \<rparr>
      in if renderer_initialize_throws f then (v1, Some InitializationFailed)
         else (v1\<lparr> layout := onStabilizationComplete
                              (onStabilizationProgress (onTick_register new_NetworkSimulation)),
                   isInitialized := True \<rparr>, None))"

definition updateData ::
  "faults \<Rightarrow> js_engine \<Rightarrow> raw_node list \<Rightarrow> raw_edge list \<Rightarrow> visualization
     \<Rightarrow> visualization \<times> update_error option" where
  "updateData f E nodesData edgesData v =
     (case (if \<not> isInitialized v then initialize f v else (v, None)) of
        (v0, Some e) \<Rightarrow> (v0, Some e)
      | (v0, None) \<Rightarrow>
          let r = processData E nodesData edgesData;
              v1 = v0\<lparr> component_calls := component_calls v0 @ [ProcessData nodesData edgesData] \<rparr>;
              v2 = v1\<lparr> component_calls := component_calls v1 @
                          [UpdateElements (processedNodes r) (processedEdges r)] \<rparr>
          in if updateElements_throws f then (v2, Some UpdateFailed)
             else
               let v3 = v2\<lparr> layout := stop (layout v2),
                              component_calls := component_calls v2 @ [SimulationStop] \<rparr>;
                   v4 = v3\<lparr> layout := setData (layout v3),
                              component_calls := component_calls v3 @
                                [SimulationSetData (processedNodes r) (processedEdges r)] \<rparr>;
                   v5 = v4\<lparr> layout := restart (layout v4),
                              component_calls := component_calls v4 @ [SimulationRestart] \<rparr>
               in (v5, None))"

section \<open>NetworkRenderer: the colour-flow animation (core/renderer.js)\<close>

text \<open>
  Time is in milliseconds.  \<open>timers\<close> holds the pending \<open>setTimeout\<close> callbacks with
  the time each is due, in the order they fire.  Every array passed as
  \<open>connectedNodes\<close> is an entry of \<open>node_queues\<close>; a recursive call passes the same
  array on, so a timer names the array it will \<open>shift\<close>.  \<open>promises\<close> holds the state
  of the promise of every call, \<open>fill_transitions\<close> the fill transitions started (when,
  on which node, toward which colour), \<open>gradients\<close> the end colours of the gradients
  created.
\<close>

datatype js_error = ReferenceError

datatype promise_state = PromisePending | PromiseResolved nat | PromiseRejected nat js_error

datatype timer_task =
    WaveHop nat "string option" bool
  | TransitionComplete nat

record renderer =
  edge_data :: "vedge list"
  clock :: nat
  timers :: "(nat \<times> timer_task) list"
  node_queues :: "vnode list list"
  promises :: "promise_state list"
  fill_transitions :: "(nat \<times> string \<times> string option) list"
  gradients :: "(string \<times> string) list"

definition new_renderer :: "vedge list \<Rightarrow> renderer" where
  "new_renderer edges =
     \<lparr> edge_data = edges, clock = 0, timers = [], node_queues = [], promises = [],
       fill_transitions = [], gradients = [] \<rparr>"

text \<open>\<open>setTimeout\<close>: a timer fires after those due earlier and after those set earlier
  for the same time.\<close>

fun add_timer :: "nat \<times> timer_task \<Rightarrow> (nat \<times> timer_task) list \<Rightarrow> (nat \<times> timer_task) list" where
  "add_timer x [] = [x]"
| "add_timer x (y # ys) = (if fst y \<le> fst x then y # add_timer x ys else x # y # ys)"

text \<open>
  The callback of \<open>connectedEdges.each\<close> for one edge \<open>d\<close>.  Its body declares
  \<open>const targetColor\<close>, which hides the parameter \<open>targetColor\<close> of the method
  throughout the body: the read of \<open>targetColor\<close> on the line before the declaration
  (taken when \<open>d.source.id === nodeId\<close>) and the read inside the declaration's own
  initialiser (taken when \<open>d.target.id === nodeId\<close>) reach the constant before it is
  initialised, and JavaScript throws a \<open>ReferenceError\<close>.  Past both lines the gradient
  is created and, if the array of connected nodes is not empty, a timer is set for the
  next hop, with the constant as its colour.
\<close>

definition edge_callback :: "string \<Rightarrow> nat \<Rightarrow> bool \<Rightarrow> vedge \<Rightarrow> renderer \<Rightarrow> js_error + renderer" where
  "edge_callback nid' q isReverse d r =
     (if vid (vsource d) = nid' then Inl ReferenceError
      else if vid (vtarget d) = nid' then Inl ReferenceError
      else
        let r1 = r\<lparr> gradients := gradients r @ [(color (vsource d), color (vtarget d))] \<rparr>
        in Inr (if q < length (node_queues r1) \<and> node_queues r1 ! q \<noteq> []
                then r1\<lparr> timers := add_timer
                           (clock r1 + 300, WaveHop q (Some (color (vtarget d))) isReverse)
                           (timers r1) \<rparr>
                else r1))"

text \<open>\<open>selection.each\<close>: the callback runs edge by edge; what it throws ends the loop
  and leaves to the caller, with the state as it is then.\<close>

fun each_edge :: "string \<Rightarrow> nat \<Rightarrow> bool \<Rightarrow> vedge list \<Rightarrow> renderer \<Rightarrow> js_error option \<times> renderer" where
  "each_edge nid' q isReverse [] r = (None, r)"
| "each_edge nid' q isReverse (d # ds) r =
     (case edge_callback nid' q isReverse d r of
        Inl err \<Rightarrow> (Some err, r)
      | Inr r1 \<Rightarrow> each_edge nid' q isReverse ds r1)"

text \<open>
  \<open>animateColorTransition(nodeId, targetColor, connectedNodes, isReverse)\<close>, with the
  array given by its index \<open>q\<close>.  The result is the index of the promise returned and
  the state.  An error thrown inside the executor of \<open>new Promise\<close> rejects the promise:
  the timer that would resolve it is then never set.
\<close>

definition animateColorTransition ::
  "string \<Rightarrow> string option \<Rightarrow> nat \<Rightarrow> bool \<Rightarrow> renderer \<Rightarrow> nat \<times> renderer" where
  "animateColorTransition nid' targetColor' q isReverse r =
     (let p = length (promises r);
          r1 = r\<lparr> promises := promises r @ [PromisePending],
                  fill_transitions := fill_transitions r @ [(clock r, nid', targetColor')] \<rparr>;
          connectedEdges = filter (\<lambda>d. vid (vsource d) = nid' \<or> vid (vtarget d) = nid')
                             (edge_data r1)
      in case each_edge nid' q isReverse connectedEdges r1 of
           (Some err, r2) \<Rightarrow>
             (p, r2\<lparr> promises := (promises r2)[p := PromiseRejected (clock r2) err] \<rparr>)
         | (None, r2) \<Rightarrow>
             (p, r2\<lparr> timers := add_timer (clock r2 + 300, TransitionComplete p) (timers r2) \<rparr>))"

text \<open>A call from outside, as the controller makes it: the array is a new one.\<close>

definition start_transition ::
  "string \<Rightarrow> string option \<Rightarrow> vnode list \<Rightarrow> bool \<Rightarrow> renderer \<Rightarrow> nat \<times> renderer" where
  "start_transition nid' targetColor' queue isReverse r =
     animateColorTransition nid' targetColor' (length (node_queues r)) isReverse
       (r\<lparr> node_queues := node_queues r @ [queue] \<rparr>)"

text \<open>A timer fires: the hop shifts the next node off its array and starts the animation
  from it; the completion resolves its promise.\<close>

definition fire :: "timer_task \<Rightarrow> renderer \<Rightarrow> renderer" where
  "fire task r =
     (case task of
        WaveHop q col isReverse \<Rightarrow>
          (if q < length (node_queues r)
           then (case node_queues r ! q of
                   [] \<Rightarrow> r
                 | nextNode # rest \<Rightarrow>
                     snd (animateColorTransition (vid nextNode) col q isReverse
                            (r\<lparr> node_queues := (node_queues r)[q := rest] \<rparr>)))
           else r)
      | TransitionComplete p \<Rightarrow>
          r\<lparr> promises := (promises r)[p := PromiseResolved (clock r)] \<rparr>)"

text \<open>The event loop up to time \<open>t\<close>: the timers due by then fire in order, each at its
  time.  \<open>fuel\<close> bounds the number of timers fired.\<close>

fun run_timers :: "nat \<Rightarrow> nat \<Rightarrow> renderer \<Rightarrow> renderer" where
  "run_timers 0 t r = r"
| "run_timers (Suc fuel) t r =
     (case timers r of
        [] \<Rightarrow> r\<lparr> clock := max (clock r) t \<rparr>
      | (due, task) # rest \<Rightarrow>
          if due \<le> t
          then run_timers fuel t (fire task (r\<lparr> clock := max (clock r) due, timers := rest \<rparr>))
          else r\<lparr> clock := max (clock r) t \<rparr>)"

definition is_hop :: "nat \<times> timer_task \<Rightarrow> bool" where
  "is_hop x = (case snd x of WaveHop q col isReverse \<Rightarrow> True | TransitionComplete p \<Rightarrow> False)"

section \<open>Properties of the DataProcessor\<close>

subsection \<open>Degrees\<close>

lemma degree_of_count_endpoint:
  "degree_of (count_endpoint k' m) k = degree_of m k + (if k = k' then 1 else 0)"
  by (simp add: degree_of_def count_endpoint_def)

lemma degree_of_fold:
  "degree_of (fold (\<lambda>edge m. count_endpoint (eto edge) (count_endpoint (efrom edge) m)) edges m) k =
     degree_of m k + length (filter (\<lambda>e. efrom e = k) edges)
                   + length (filter (\<lambda>e. eto e = k) edges)"
  by (induction edges arbitrary: m) (auto simp: degree_of_count_endpoint)

lemma degree_of_calculateNodeDegrees:
  "degree_of (calculateNodeDegrees edges) k =
     length (filter (\<lambda>e. efrom e = k) edges) + length (filter (\<lambda>e. eto e = k) edges)"
  by (simp add: calculateNodeDegrees_def degree_of_fold) (simp add: degree_of_def)

lemma degree_processNode:
  "degree (processNode E (calculateNodeDegrees edges) nodes node) =
     length (filter (\<lambda>e. efrom e = nid node) edges)
     + length (filter (\<lambda>e. eto e = nid node) edges)"
  by (simp add: processNode_def Let_def degree_of_calculateNodeDegrees)

lemma nid_processNodes: "map nid (processNodes E d nodes) = map nid nodes"
  by (simp add: processNodes_def processNode_def Let_def o_def)

text \<open>
  Claim C8.  The degree recorded for an id is the number of times the id stands as the
  \<open>from\<close> of a raw edge plus the number of times it stands as the \<open>to\<close> of one;
  every processed node carries that number for its own id.  For the nodes a, b, c with
  the edges a\<rightarrow>b and a\<rightarrow>c the degrees are 2, 1 and 1.
\<close>

theorem degree_counts_endpoint_occurrences:
  "degree_of (calculateNodeDegrees edges) k =
     length (filter (\<lambda>e. efrom e = k) edges) + length (filter (\<lambda>e. eto e = k) edges)
   \<and> map degree (processedNodes (processData E nodes edges)) =
       map (\<lambda>node. length (filter (\<lambda>e. efrom e = nid node) edges)
                  + length (filter (\<lambda>e. eto e = nid node) edges)) nodes
   \<and> map (\<lambda>n. (nid n, degree n))
        (processedNodes (processData E
           [\<lparr>nid = ''a'', nvalue = Num (Finite 1)\<rparr>, \<lparr>nid = ''b'', nvalue = Num (Finite 10)\<rparr>,
            \<lparr>nid = ''c'', nvalue = Num (Finite 10)\<rparr>]
           [\<lparr>efrom = ''a'', eto = ''b''\<rparr>, \<lparr>efrom = ''a'', eto = ''c''\<rparr>]))
       = [(''a'', 2), (''b'', 1), (''c'', 1)]"
proof -
  have "map degree (processedNodes (processData E ns es)) =
       map (\<lambda>node. length (filter (\<lambda>e. efrom e = nid node) es)
                  + length (filter (\<lambda>e. eto e = nid node) es)) ns" for ns es
    by (simp add: processData_def Let_def processNodes_def degree_processNode o_def)
  moreover have "map nid (processedNodes (processData E ns es)) = map nid ns" for ns es
    by (simp add: processData_def Let_def nid_processNodes)
  ultimately show ?thesis
    by (simp add: degree_of_calculateNodeDegrees)
       (simp add: processData_def Let_def processNodes_def processNode_def
          degree_of_calculateNodeDegrees)
qed

subsection \<open>Edges\<close>

lemma nodeMap_fold_Some:
  "fold (\<lambda>node m. m(nid node \<mapsto> node)) pns m k = Some n \<Longrightarrow>
     (n \<in> set pns \<and> nid n = k) \<or> m k = Some n"
  by (induction pns arbitrary: m) (fastforce split: if_splits)+

lemma nodeMap_of_Some: "nodeMap_of pns k = Some n \<Longrightarrow> n \<in> set pns \<and> nid n = k"
  using nodeMap_fold_Some [of pns Map.empty k n] by (simp add: nodeMap_of_def)

lemma nodeMap_fold_dom:
  "dom (fold (\<lambda>node m. m(nid node \<mapsto> node)) pns m) = dom m \<union> nid ` set pns"
  by (induction pns arbitrary: m) auto

lemma nodeMap_of_None: "(nodeMap_of pns k = None) = (k \<notin> nid ` set pns)"
proof -
  have "(nodeMap_of pns k = None) = (k \<notin> dom (nodeMap_of pns))"
    by (simp add: domIff)
  also have "dom (nodeMap_of pns) = nid ` set pns"
    using nodeMap_fold_dom [of pns Map.empty] by (simp add: nodeMap_of_def)
  finally show ?thesis .
qed

lemma processEdge_Inr:
  "processEdge m edge = Inr e \<Longrightarrow>
     m (efrom edge) = Some (source e) \<and> m (eto edge) = Some (target e) \<and>
     efrom e = efrom edge \<and> eto e = eto edge"
  by (auto simp: processEdge_def split: option.splits)

lemma processEdge_cases:
  "processEdge m edge =
     (if m (efrom edge) \<noteq> None \<and> m (eto edge) \<noteq> None
      then Inr \<lparr> efrom = efrom edge, eto = eto edge, source = the (m (efrom edge)),
                 target = the (m (eto edge)),
                 edge_length = length_of_edge (importance (the (m (efrom edge))))
                                              (importance (the (m (eto edge)))) \<rparr>
      else Inl (''Invalid edge: '' @ efrom edge @ '' -> '' @ eto edge))"
  by (auto simp: processEdge_def split: option.splits)

lemma non_null_endpoints:
  "map (\<lambda>e. (efrom e, eto e)) (non_null (map (processEdge m) edges)) =
     map (\<lambda>e. (efrom e, eto e))
       (filter (\<lambda>e. m (efrom e) \<noteq> None \<and> m (eto e) \<noteq> None) edges)"
  by (induction edges) (auto simp: processEdge_cases non_null_def)

lemma console_lines_messages:
  "console_lines (map (processEdge m) edges) =
     map (\<lambda>e. ''Invalid edge: '' @ efrom e @ '' -> '' @ eto e)
       (filter (\<lambda>e. \<not> (m (efrom e) \<noteq> None \<and> m (eto e) \<noteq> None)) edges)"
  by (induction edges) (auto simp: processEdge_cases console_lines_def)

lemma non_null_resolved:
  "e \<in> set (non_null (map (processEdge m) edges)) \<Longrightarrow>
     m (efrom e) = Some (source e) \<and> m (eto e) = Some (target e)"
proof -
  assume "e \<in> set (non_null (map (processEdge m) edges))"
  then obtain edge where "processEdge m edge = Inr e"
    by (auto simp: non_null_def split: sum.splits)
  then show ?thesis
    using processEdge_Inr [of m edge e] by simp
qed

text \<open>
  Claim C6.  For every input, each edge of \<open>processedEdges\<close> has its \<open>source\<close> and
  its \<open>target\<close> among \<open>processedNodes\<close>, and they are the nodes its \<open>from\<close> and
  \<open>to\<close> name.  The processed edges are, in order, the raw edges both of whose ends name
  a node; every other raw edge is left out and has its line on the error console.
  \<open>processData\<close> is total: no input makes it throw.
\<close>

theorem processed_edges_resolved:
  "(\<forall>e \<in> set (processedEdges (processData E nodes edges)).
      source e \<in> set (processedNodes (processData E nodes edges)) \<and>
      target e \<in> set (processedNodes (processData E nodes edges)) \<and>
      nid (source e) = efrom e \<and> nid (target e) = eto e)
   \<and> map (\<lambda>e. (efrom e, eto e)) (processedEdges (processData E nodes edges)) =
       map (\<lambda>e. (efrom e, eto e))
         (filter (\<lambda>e. efrom e \<in> nid ` set nodes \<and> eto e \<in> nid ` set nodes) edges)
   \<and> consoleErrors (processData E nodes edges) =
       map (\<lambda>e. ''Invalid edge: '' @ efrom e @ '' -> '' @ eto e)
         (filter (\<lambda>e. \<not> (efrom e \<in> nid ` set nodes \<and> eto e \<in> nid ` set nodes)) edges)
   \<and> map nid (processedNodes (processData E nodes edges)) = map nid nodes"
proof -
  let ?pns = "processNodes E (calculateNodeDegrees edges) nodes"
  let ?m = "nodeMap_of ?pns"
  have ids: "nid ` set ?pns = nid ` set nodes"
    using nid_processNodes [of E "calculateNodeDegrees edges" nodes]
    by (metis set_map)
  have known: "(?m k \<noteq> None) = (k \<in> nid ` set nodes)" for k
    using nodeMap_of_None [of ?pns k] ids by simp
  have same: "(\<lambda>e. ?m (efrom e) \<noteq> None \<and> ?m (eto e) \<noteq> None) =
              (\<lambda>e. efrom e \<in> nid ` set nodes \<and> eto e \<in> nid ` set nodes)"
    by (simp only: known)
  have pn: "processedNodes (processData E nodes edges) = ?pns"
    by (simp add: processData_def Let_def)
  have pe: "processedEdges (processData E nodes edges) = non_null (map (processEdge ?m) edges)"
    by (simp add: processData_def Let_def)
  have ce: "consoleErrors (processData E nodes edges) = console_lines (map (processEdge ?m) edges)"
    by (simp add: processData_def Let_def)
  have "\<forall>e \<in> set (non_null (map (processEdge ?m) edges)).
      source e \<in> set ?pns \<and> target e \<in> set ?pns \<and>
      nid (source e) = efrom e \<and> nid (target e) = eto e"
    using non_null_resolved [of _ ?m edges] nodeMap_of_Some [of ?pns]
    by blast
  moreover have "map (\<lambda>e. (efrom e, eto e)) (non_null (map (processEdge ?m) edges)) =
       map (\<lambda>e. (efrom e, eto e))
         (filter (\<lambda>e. efrom e \<in> nid ` set nodes \<and> eto e \<in> nid ` set nodes) edges)"
    using non_null_endpoints [of ?m edges] by (simp only: same)
  moreover have "console_lines (map (processEdge ?m) edges) =
       map (\<lambda>e. ''Invalid edge: '' @ efrom e @ '' -> '' @ eto e)
         (filter (\<lambda>e. \<not> (efrom e \<in> nid ` set nodes \<and> eto e \<in> nid ` set nodes)) edges)"
    using console_lines_messages [of ?m edges] by (simp only: known)
  ultimately show ?thesis
    unfolding pn pe ce by (simp only: nid_processNodes simp_thms)
qed

text \<open>The theorem at two nodes a, b and the edges a\<rightarrow>b and a\<rightarrow>z: the first edge is
  kept with its two nodes, the second is dropped and logged.\<close>

theorem processed_edges_resolved_witness:
  "map (\<lambda>e. (nid (source e), nid (target e)))
     (processedEdges (processData example_engine
        [\<lparr>nid = ''a'', nvalue = Num (Finite 1)\<rparr>, \<lparr>nid = ''b'', nvalue = Num (Finite 2)\<rparr>]
        [\<lparr>efrom = ''a'', eto = ''b''\<rparr>, \<lparr>efrom = ''a'', eto = ''z''\<rparr>])) = [(''a'', ''b'')]
   \<and> consoleErrors (processData example_engine
        [\<lparr>nid = ''a'', nvalue = Num (Finite 1)\<rparr>, \<lparr>nid = ''b'', nvalue = Num (Finite 2)\<rparr>]
        [\<lparr>efrom = ''a'', eto = ''b''\<rparr>, \<lparr>efrom = ''a'', eto = ''z''\<rparr>])
       = [''Invalid edge: a -> z'']"
  using processed_edges_resolved [of example_engine
        "[\<lparr>nid = ''a'', nvalue = Num (Finite 1)\<rparr>, \<lparr>nid = ''b'', nvalue = Num (Finite 2)\<rparr>]"
        "[\<lparr>efrom = ''a'', eto = ''b''\<rparr>, \<lparr>efrom = ''a'', eto = ''z''\<rparr>]"]
  by (simp add: processData_def Let_def processNodes_def nodeMap_of_def processEdge_def
        processNode_def non_null_def console_lines_def)

subsection \<open>Sizes\<close>















section \<open>Properties of the EventManager\<close>

lemma distinct_set_add: "distinct xs \<Longrightarrow> distinct (set_add x xs)"
  by (simp add: set_add_def)

lemma distinct_set_delete: "distinct xs \<Longrightarrow> distinct (set_delete x xs)"
  by (simp add: set_delete_def)

lemma sets_distinct_on: "sets_distinct em \<Longrightarrow> sets_distinct (on name cb em)"
  by (auto simp: sets_distinct_def on_def Let_def distinct_set_add split: option.splits if_splits)

lemma sets_distinct_off: "sets_distinct em \<Longrightarrow> sets_distinct (off name cb em)"
  by (auto simp: sets_distinct_def off_def distinct_set_delete split: option.splits if_splits)

lemma sets_distinct_step: "sets_distinct em \<Longrightarrow> sets_distinct (bus_step call em)"
  by (cases call) (simp_all add: sets_distinct_on sets_distinct_off,
                   simp add: sets_distinct_def cleanup_events_def)

lemma sets_distinct_fold: "sets_distinct em \<Longrightarrow> sets_distinct (fold bus_step calls em)"
  by (induction calls arbitrary: em) (simp_all add: sets_distinct_step)

lemma sets_distinct_bus_after: "sets_distinct (bus_after calls)"
  unfolding bus_after_def
  by (rule sets_distinct_fold) (simp add: sets_distinct_def new_EventManager_def)

lemma count_in_distinct:
  "distinct xs \<Longrightarrow> length (filter (\<lambda>y. y = x) xs) = (if x \<in> set xs then 1 else 0)"
  by (induction xs) auto

lemma calls_of_emit:
  "map fst (fst (emit throws name data em)) =
     (case listeners em name of None \<Rightarrow> [] | Some cbs \<Rightarrow> cbs)"
  by (simp add: emit_def o_def split: option.splits)

lemma listeners_on:
  "listeners (on name cb em) name =
     Some (set_add cb (case listeners em name of None \<Rightarrow> [] | Some cbs \<Rightarrow> cbs))"
  by (simp add: on_def Let_def)

lemma on_idem: "on name cb (on name cb em) = on name cb em"
  by (simp add: on_def Let_def set_add_def)

lemma listeners_off_on:
  "listeners (off name cb (on name cb em)) name =
     Some (set_delete cb (set_add cb (case listeners em name of None \<Rightarrow> [] | Some cbs \<Rightarrow> cbs)))"
  by (simp add: off_def listeners_on)

text \<open>
  Claim C10.  On a manager reached by any sequence of \<open>on\<close>, \<open>off\<close> and
  \<open>cleanup\<close> calls, registering the same callback twice under a name leaves the
  manager as registering it once does; an \<open>emit\<close> of that name then calls the callback
  exactly once; and after a single \<open>off\<close> an \<open>emit\<close> does not call it at all.
\<close>

theorem registration_idempotent:
  "on name cb (on name cb (bus_after calls)) = on name cb (bus_after calls)
   \<and> length (filter (\<lambda>c. c = cb)
        (map fst (fst (emit throws name data (on name cb (on name cb (bus_after calls))))))) = 1
   \<and> length (filter (\<lambda>c. c = cb)
        (map fst (fst (emit throws name data
           (off name cb (on name cb (on name cb (bus_after calls)))))))) = 0"
proof -
  let ?em = "bus_after calls"
  let ?cbs = "case listeners ?em name of None \<Rightarrow> [] | Some cbs \<Rightarrow> cbs"
  have d: "distinct ?cbs"
    using sets_distinct_bus_after [of calls]
    by (auto simp: sets_distinct_def split: option.splits)
  have once: "length (filter (\<lambda>c. c = cb) (set_add cb ?cbs)) = 1"
    using count_in_distinct [OF distinct_set_add [OF d], of cb cb] by (simp add: set_add_def)
  have gone: "cb \<notin> set (set_delete cb (set_add cb ?cbs))"
    using distinct_set_add [OF d, of cb] by (simp add: set_delete_def)
  have none: "length (filter (\<lambda>c. c = cb) (set_delete cb (set_add cb ?cbs))) = 0"
    using gone by (auto simp: filter_empty_conv)
  show ?thesis
    using once none
    by (simp add: on_idem calls_of_emit listeners_on listeners_off_on)
qed

section \<open>Properties of the controller\<close>

subsection \<open>What each operation does to each field\<close>

lemma processTransitionQueue_fields:
  "selectedNodes (processTransitionQueue c) = selectedNodes c"
  "selectionColor (processTransitionQueue c) = selectionColor c"
  "originalColors (processTransitionQueue c) = originalColors c"
  "edgeElements (processTransitionQueue c) = edgeElements c"
  "emitted (processTransitionQueue c) = emitted c"
  "transitionErrors (processTransitionQueue c) = transitionErrors c"
  "queue_history (processTransitionQueue c) = queue_history c"
  by (simp_all add: processTransitionQueue_def queue_history_def split: list.splits)

lemma queueTransition_fields:
  "selectedNodes (queueTransition t c) = selectedNodes c"
  "selectionColor (queueTransition t c) = selectionColor c"
  "originalColors (queueTransition t c) = originalColors c"
  "edgeElements (queueTransition t c) = edgeElements c"
  "emitted (queueTransition t c) = emitted c"
  "transitionErrors (queueTransition t c) = transitionErrors c"
  "queue_history (queueTransition t c) = queue_history c @ [t]"
  by (simp_all add: queueTransition_def Let_def processTransitionQueue_fields)
     (simp add: queue_history_def)

lemma queue_ok_queueTransition: "queue_ok c \<Longrightarrow> queue_ok (queueTransition t c)"
  by (auto simp: queue_ok_def queueTransition_def processTransitionQueue_def Let_def
           split: list.splits)

lemma queue_ok_transitionSettled: "queue_ok c \<Longrightarrow> queue_ok (transitionSettled res c)"
  by (auto simp: queue_ok_def transitionSettled_def processTransitionQueue_def
           split: list.splits if_splits)

lemma transitionSettled_queue_history: "queue_history (transitionSettled res c) = queue_history c"
  by (simp add: transitionSettled_def processTransitionQueue_fields split: list.splits)
     (simp add: queue_history_def)

lemma transitionSettled_next:
  assumes "queue_ok c"
  shows "awaited (transitionSettled res c) = take 1 (transitionQueue c)"
    and "animations (transitionSettled res c) = animations c @ take 1 (transitionQueue c)"
    and "transitionQueue (transitionSettled res c) = drop 1 (transitionQueue c)"
    and "transitionErrors (transitionSettled res c) =
           transitionErrors c + (if res = Rejected \<and> awaited c \<noteq> [] then 1 else 0)"
  using assms
  by (auto simp: queue_ok_def transitionSettled_def processTransitionQueue_def
           split: list.splits if_splits)


lemma fold_queueTransition:
  "selectedNodes (fold (\<lambda>i c'. queueTransition (f c' i) c') ids c) = selectedNodes c"
  "selectionColor (fold (\<lambda>i c'. queueTransition (f c' i) c') ids c) = selectionColor c"
  "originalColors (fold (\<lambda>i c'. queueTransition (f c' i) c') ids c) = originalColors c"
  "edgeElements (fold (\<lambda>i c'. queueTransition (f c' i) c') ids c) = edgeElements c"
  "emitted (fold (\<lambda>i c'. queueTransition (f c' i) c') ids c) = emitted c"
  "transitionErrors (fold (\<lambda>i c'. queueTransition (f c' i) c') ids c) = transitionErrors c"
  by (induction ids arbitrary: c) (simp_all add: queueTransition_fields)

lemma fold_queueTransition_ok:
  "queue_ok c \<Longrightarrow> queue_ok (fold (\<lambda>i c'. queueTransition (f c' i) c') ids c)"
  by (induction ids arbitrary: c) (simp_all add: queue_ok_queueTransition)

lemma fold_restore_history:
  "queue_history (fold (\<lambda>i c'. queueTransition
       \<lparr> ttype = Restore, nodeId = i, targetColor = originalColors c' i,
         connectedNodes = getConnectedNodes (edgeElements c') i \<rparr> c') ids c) =
   queue_history c @
     map (\<lambda>i. \<lparr> ttype = Restore, nodeId = i, targetColor = originalColors c i,
                connectedNodes = getConnectedNodes (edgeElements c) i \<rparr>) ids"
  by (induction ids arbitrary: c) (simp_all add: queueTransition_fields)

lemma restoreAllColors_fields:
  "selectedNodes (restoreAllColors c) = []"
  "selectionColor (restoreAllColors c) = None"
  "originalColors (restoreAllColors c) = originalColors c"
  "edgeElements (restoreAllColors c) = edgeElements c"
  "emitted (restoreAllColors c) = emitted c @ [SelectionCleared]"
  "transitionErrors (restoreAllColors c) = transitionErrors c"
  by (simp_all add: restoreAllColors_def Let_def events_emit_def fold_queueTransition)

lemma restoreAllColors_history:
  "queue_history (restoreAllColors c) =
     queue_history c @
     map (\<lambda>i. \<lparr> ttype = Restore, nodeId = i, targetColor = originalColors c i,
                connectedNodes = getConnectedNodes (edgeElements c) i \<rparr>) (selectedNodes c)"
  using fold_restore_history [of "selectedNodes c" c]
  by (simp add: restoreAllColors_def Let_def events_emit_def queue_history_def)

lemma queue_ok_update:
  "queue_ok (c\<lparr> selectedNodes := a \<rparr>) = queue_ok c"
  "queue_ok (c\<lparr> selectionColor := b \<rparr>) = queue_ok c"
  "queue_ok (c\<lparr> originalColors := m \<rparr>) = queue_ok c"
  "queue_ok (c\<lparr> emitted := e \<rparr>) = queue_ok c"
  by (simp_all add: queue_ok_def)

lemma queue_history_update:
  "queue_history (c\<lparr> selectedNodes := a \<rparr>) = queue_history c"
  "queue_history (c\<lparr> selectionColor := b \<rparr>) = queue_history c"
  "queue_history (c\<lparr> originalColors := m \<rparr>) = queue_history c"
  "queue_history (c\<lparr> emitted := e \<rparr>) = queue_history c"
  by (simp_all add: queue_history_def)

lemma queue_ok_restoreAllColors: "queue_ok c \<Longrightarrow> queue_ok (restoreAllColors c)"
  by (simp add: restoreAllColors_def Let_def events_emit_def queue_ok_update
        fold_queueTransition_ok)

lemma selectNode_fields:
  "selectedNodes (selectNode n c) = set_add (vid n) (selectedNodes c)"
  "selectionColor (selectNode n c) =
     (if selectedNodes c = [] then Some (color n) else selectionColor c)"
  "originalColors (selectNode n c) =
     (if originalColors c (vid n) = None then (originalColors c)(vid n \<mapsto> color n)
      else originalColors c)"
  "edgeElements (selectNode n c) = edgeElements c"
  "emitted (selectNode n c) =
     emitted c @ [NodeSelected (vid n) (set_add (vid n) (selectedNodes c))]"
  "transitionErrors (selectNode n c) = transitionErrors c"
  by (auto simp: selectNode_def Let_def events_emit_def queueTransition_fields)

lemma selectNode_history:
  "queue_history (selectNode n c) =
     queue_history c @
       [\<lparr> ttype = Select, nodeId = vid n,
          targetColor = (if selectedNodes c = [] then Some (color n) else selectionColor c),
          connectedNodes = getConnectedNodes (edgeElements c) (vid n) \<rparr>]"
  by (simp add: selectNode_def Let_def events_emit_def queue_history_update
        queueTransition_fields)

lemma queue_ok_selectNode: "queue_ok c \<Longrightarrow> queue_ok (selectNode n c)"
  by (simp add: selectNode_def Let_def events_emit_def queue_ok_update
        queue_ok_queueTransition)

lemma unselectNode_fields:
  "selectedNodes (unselectNode n c) =
     (if set_delete (vid n) (selectedNodes c) = [] then []
      else set_delete (vid n) (selectedNodes c))"
  "selectionColor (unselectNode n c) =
     (if set_delete (vid n) (selectedNodes c) = [] then None else selectionColor c)"
  "originalColors (unselectNode n c) = originalColors c"
  "edgeElements (unselectNode n c) = edgeElements c"
  "emitted (unselectNode n c) =
     emitted c @
     (if set_delete (vid n) (selectedNodes c) = [] then [SelectionCleared] else []) @
     [NodeUnselected (vid n) (set_delete (vid n) (selectedNodes c))]"
  "transitionErrors (unselectNode n c) = transitionErrors c"
  by (simp_all add: unselectNode_def Let_def events_emit_def queueTransition_fields
        restoreAllColors_fields)

lemma unselectNode_history:
  "queue_history (unselectNode n c) =
     queue_history c @
       [\<lparr> ttype = Unselect, nodeId = vid n, targetColor = originalColors c (vid n),
          connectedNodes = getConnectedNodes (edgeElements c) (vid n) \<rparr>]"
  by (simp add: unselectNode_def Let_def events_emit_def queue_history_update
        queueTransition_fields restoreAllColors_history)

lemma queue_ok_unselectNode: "queue_ok c \<Longrightarrow> queue_ok (unselectNode n c)"
  by (simp add: unselectNode_def Let_def events_emit_def queue_ok_update
        queue_ok_queueTransition queue_ok_restoreAllColors)

lemma queue_ok_step: "queue_ok c \<Longrightarrow> queue_ok (controller_step ev c)"
  by (cases ev)
     (simp_all add: handleNodeClick_def handleBackgroundClick_def queue_ok_selectNode
        queue_ok_unselectNode queue_ok_restoreAllColors queue_ok_transitionSettled)

lemma queue_ok_fold: "queue_ok c \<Longrightarrow> queue_ok (fold controller_step evs c)"
  by (induction evs arbitrary: c) (simp_all add: queue_ok_step)

lemma queue_ok_controller_after: "queue_ok (controller_after edges evs)"
  unfolding controller_after_def
  by (rule queue_ok_fold) (simp add: queue_ok_def new_controller_def)

lemma step_extends_history:
  "prefix (queue_history c) (queue_history (controller_step ev c))"
  by (cases ev)
     (simp_all add: handleNodeClick_def handleBackgroundClick_def selectNode_history
        unselectNode_history restoreAllColors_history transitionSettled_queue_history)

lemma colors_of_step:
  "colors_of col c \<Longrightarrow> colors_of col (controller_step (dataset_step col ev) c)"
  by (cases ev)
     (auto simp: colors_of_def handleNodeClick_def handleBackgroundClick_def
        selectNode_fields unselectNode_fields restoreAllColors_fields
        transitionSettled_def processTransitionQueue_fields split: list.splits if_splits)

lemma selected_known_step:
  "selected_known c \<Longrightarrow> selected_known (controller_step ev c)"
  by (cases ev)
     (auto simp: selected_known_def handleNodeClick_def handleBackgroundClick_def
        selectNode_fields unselectNode_fields restoreAllColors_fields set_add_def
        set_delete_def transitionSettled_def processTransitionQueue_fields
        split: list.splits if_splits dest: notin_set_remove1)

lemma dataset_invariants_fold:
  "colors_of col c \<Longrightarrow> selected_known c \<Longrightarrow>
     colors_of col (fold controller_step (map (dataset_step col) evs) c) \<and>
     selected_known (fold controller_step (map (dataset_step col) evs) c)"
  by (induction evs arbitrary: c) (simp_all add: colors_of_step selected_known_step)

lemma dataset_invariants:
  "colors_of col (dataset_after col edges evs) \<and> selected_known (dataset_after col edges evs)"
  unfolding dataset_after_def controller_after_def
  by (rule dataset_invariants_fold)
     (simp_all add: colors_of_def selected_known_def new_controller_def)

lemmas controller_eval =
  controller_after_def dataset_after_def new_controller_def handleNodeClick_def
  handleBackgroundClick_def selectNode_def unselectNode_def restoreAllColors_def
  queueTransition_def processTransitionQueue_def transitionSettled_def events_emit_def
  getConnectedNodes_def set_add_def set_delete_def queue_history_def Let_def


lemma controller_after_snoc:
  "controller_after edges (evs @ [ev]) = controller_step ev (controller_after edges evs)"
  by (simp add: controller_after_def)

text \<open>Two clicks on a fresh controller without edges, state by state.\<close>

lemma after_click_a:
  "controller_after [] [NodeClick \<lparr>vid = ''a'', color = ''red''\<rparr>] =
     \<lparr> selectedNodes = [''a''], selectionColor = Some ''red'',
       originalColors = [''a'' \<mapsto> ''red''],
       transitionQueue = [], isTransitioning = True, edgeElements = [],
       animations = [\<lparr>ttype = Select, nodeId = ''a'', targetColor = Some ''red'', connectedNodes = []\<rparr>],
       awaited = [\<lparr>ttype = Select, nodeId = ''a'', targetColor = Some ''red'', connectedNodes = []\<rparr>],
       emitted = [NodeSelected ''a'' [''a'']], transitionErrors = 0 \<rparr>"
  by (simp add: controller_eval)

lemma after_click_a_b:
  "controller_after [] [NodeClick \<lparr>vid = ''a'', color = ''red''\<rparr>,
                        NodeClick \<lparr>vid = ''b'', color = ''blue''\<rparr>] =
     \<lparr> selectedNodes = [''a'', ''b''], selectionColor = Some ''red'',
       originalColors = [''a'' \<mapsto> ''red'', ''b'' \<mapsto> ''blue''],
       transitionQueue = [\<lparr>ttype = Select, nodeId = ''b'', targetColor = Some ''red'', connectedNodes = []\<rparr>],
       isTransitioning = True, edgeElements = [],
       animations = [\<lparr>ttype = Select, nodeId = ''a'', targetColor = Some ''red'', connectedNodes = []\<rparr>],
       awaited = [\<lparr>ttype = Select, nodeId = ''a'', targetColor = Some ''red'', connectedNodes = []\<rparr>],
       emitted = [NodeSelected ''a'' [''a''], NodeSelected ''b'' [''a'', ''b'']],
       transitionErrors = 0 \<rparr>"
  using controller_after_snoc [of "[]" "[NodeClick \<lparr>vid = ''a'', color = ''red''\<rparr>]"
          "NodeClick \<lparr>vid = ''b'', color = ''blue''\<rparr>"]
  by (simp add: after_click_a)
     (simp add: handleNodeClick_def selectNode_def queueTransition_def
        processTransitionQueue_def events_emit_def getConnectedNodes_def set_add_def Let_def)

subsection \<open>The transition queue\<close>

text \<open>
  Claim C1.  In every state a controller reaches by clicks and settling promises, at most
  one call of \<open>animateColorTransition\<close> is awaited, \<open>isTransitioning\<close> is set exactly
  when one is, and the queue is empty whenever none is; \<open>_queueTransition\<close> starts a
  transition at once only when none is in flight.  The descriptors handed to the renderer
  followed by those still queued form one sequence that \<open>_queueTransition\<close> extends at
  its end and that nothing else changes or reorders.  When the awaited promise settles,
  resolved or rejected, the next call made is the front of the queue, which it leaves; a
  rejection is logged once and does not stop the drain.
\<close>

theorem transition_queue_serialized:
  "length (awaited (controller_after edges evs)) \<le> 1
   \<and> isTransitioning (controller_after edges evs) = (awaited (controller_after edges evs) \<noteq> [])
   \<and> (isTransitioning (controller_after edges evs) \<or>
       transitionQueue (controller_after edges evs) = [])
   \<and> awaited (queueTransition t (controller_after edges evs)) =
       (if isTransitioning (controller_after edges evs)
        then awaited (controller_after edges evs) else [t])
   \<and> queue_history (queueTransition t c) = queue_history c @ [t]
   \<and> queue_history (transitionSettled res c) = queue_history c
   \<and> prefix (queue_history c) (queue_history (controller_step ev c))
   \<and> awaited (transitionSettled res (controller_after edges evs)) =
       take 1 (transitionQueue (controller_after edges evs))
   \<and> animations (transitionSettled res (controller_after edges evs)) =
       animations (controller_after edges evs) @
       take 1 (transitionQueue (controller_after edges evs))
   \<and> transitionQueue (transitionSettled res (controller_after edges evs)) =
       drop 1 (transitionQueue (controller_after edges evs))
   \<and> transitionErrors (transitionSettled res (controller_after edges evs)) =
       transitionErrors (controller_after edges evs) +
       (if res = Rejected \<and> awaited (controller_after edges evs) \<noteq> [] then 1 else 0)"
proof -
  let ?c = "controller_after edges evs"
  have ok: "queue_ok ?c" by (rule queue_ok_controller_after)
  have 1: "length (awaited ?c) \<le> 1" "isTransitioning ?c = (awaited ?c \<noteq> [])"
    "isTransitioning ?c \<or> transitionQueue ?c = []"
    using ok by (auto simp: queue_ok_def)
  have 2: "awaited (queueTransition t ?c) = (if isTransitioning ?c then awaited ?c else [t])"
    using ok by (auto simp: queue_ok_def queueTransition_def processTransitionQueue_def Let_def)
  show ?thesis
    using 1 2 transitionSettled_next [OF ok, of res]
    by (simp add: queueTransition_fields transitionSettled_queue_history step_extends_history)
qed

text \<open>The theorem after two clicks on a fresh controller: the first selection is in
  flight and the second queued; when the first is rejected, one error is logged and the
  second is started.\<close>

theorem transition_queue_serialized_witness:
  "map nodeId (awaited (controller_after []
      [NodeClick \<lparr>vid = ''a'', color = ''red''\<rparr>, NodeClick \<lparr>vid = ''b'', color = ''blue''\<rparr>])) = [''a'']
   \<and> map nodeId (transitionQueue (controller_after []
      [NodeClick \<lparr>vid = ''a'', color = ''red''\<rparr>, NodeClick \<lparr>vid = ''b'', color = ''blue''\<rparr>])) = [''b'']
   \<and> map nodeId (awaited (transitionSettled Rejected (controller_after []
      [NodeClick \<lparr>vid = ''a'', color = ''red''\<rparr>, NodeClick \<lparr>vid = ''b'', color = ''blue''\<rparr>]))) = [''b'']
   \<and> transitionErrors (transitionSettled Rejected (controller_after []
      [NodeClick \<lparr>vid = ''a'', color = ''red''\<rparr>, NodeClick \<lparr>vid = ''b'', color = ''blue''\<rparr>])) = 1"
  using transition_queue_serialized [where edges = "[]" and res = Rejected
      and evs = "[NodeClick \<lparr>vid = ''a'', color = ''red''\<rparr>, NodeClick \<lparr>vid = ''b'', color = ''blue''\<rparr>]"]
  by (simp add: after_click_a_b)

subsection \<open>Selection colours\<close>

lemma transitionSettled_fields:
  "selectedNodes (transitionSettled res c) = selectedNodes c"
  "selectionColor (transitionSettled res c) = selectionColor c"
  "originalColors (transitionSettled res c) = originalColors c"
  "edgeElements (transitionSettled res c) = edgeElements c"
  by (simp_all add: transitionSettled_def processTransitionQueue_fields split: list.splits)

text \<open>While something stays selected, no event changes \<open>selectionColor\<close>.\<close>

lemma step_keeps_selectionColor:
  "selectedNodes c \<noteq> [] \<Longrightarrow> selectedNodes (controller_step ev c) \<noteq> [] \<Longrightarrow>
     selectionColor (controller_step ev c) = selectionColor c"
  by (cases ev)
     (auto simp: handleNodeClick_def handleBackgroundClick_def selectNode_fields
        unselectNode_fields restoreAllColors_fields transitionSettled_fields
        split: if_splits)

lemma run_keeps_selectionColor:
  "selectedNodes c \<noteq> [] \<Longrightarrow>
   (\<forall>k \<le> length evs. selectedNodes (fold controller_step (take k evs) c) \<noteq> []) \<Longrightarrow>
     selectionColor (fold controller_step evs c) = selectionColor c"
proof (induction evs rule: rev_induct)
  case Nil
  then show ?case by simp
next
  case (snoc ev evs)
  have pre: "\<forall>k \<le> length evs. selectedNodes (fold controller_step (take k evs) c) \<noteq> []"
  proof (intro allI impI)
    fix k assume k: "k \<le> length evs"
    then show "selectedNodes (fold controller_step (take k evs) c) \<noteq> []"
      using snoc.prems(2) [rule_format, of k] by simp
  qed
  have before: "selectedNodes (fold controller_step evs c) \<noteq> []"
    using pre by auto
  have after: "selectedNodes (controller_step ev (fold controller_step evs c)) \<noteq> []"
    using snoc.prems(2) [rule_format, of "length (evs @ [ev])"] by simp
  have "selectionColor (fold controller_step (evs @ [ev]) c) =
          selectionColor (fold controller_step evs c)"
    using step_keeps_selectionColor [OF before after] by simp
  then show ?case
    using snoc.IH [OF snoc.prems(1) pre] by simp
qed

text \<open>An entry of \<open>originalColors\<close> is never overwritten.\<close>

lemma step_keeps_original:
  "originalColors c i = Some orig \<Longrightarrow> originalColors (controller_step ev c) i = Some orig"
  by (cases ev)
     (auto simp: handleNodeClick_def handleBackgroundClick_def selectNode_fields
        unselectNode_fields restoreAllColors_fields transitionSettled_fields)

lemma run_keeps_original:
  "originalColors c i = Some orig \<Longrightarrow> originalColors (fold controller_step evs c) i = Some orig"
  by (induction evs arbitrary: c) (simp_all add: step_keeps_original)

lemma new_controller_fields:
  "selectedNodes (new_controller edges) = []"
  "selectionColor (new_controller edges) = None"
  "originalColors (new_controller edges) = Map.empty"
  "edgeElements (new_controller edges) = edges"
  "queue_history (new_controller edges) = []"
  by (simp_all add: new_controller_def queue_history_def)

lemmas click_eval =
  controller_after_def dataset_after_def handleNodeClick_def new_controller_fields
  selectNode_fields unselectNode_fields selectNode_history unselectNode_history
  set_add_def set_delete_def getConnectedNodes_def

text \<open>
  Claim C2, as amended.  Selecting a node adds its id to the selection and stores its
  colour in \<open>originalColors\<close> only when the id has no entry there; no later event
  overwrites an entry.  If nothing was selected, \<open>selectionColor\<close> becomes the node's
  colour, otherwise it stays; the transition queued for the node targets
  \<open>selectionColor\<close>.  Unselecting a node removes its id, clears \<open>selectionColor\<close>
  only when nothing remains selected, and queues one transition, which targets the entry
  of \<open>originalColors\<close> for the id; a settling promise changes none of the three.  So
  from the selection of a node \<open>n\<close> into an empty selection, for as long as something
  stays selected, \<open>selectionColor\<close> is the colour of \<open>n\<close> and every node selected
  meanwhile is sent to that colour.  A selection followed by the unselection targets the
  colour stored at the node's first selection: the node's own colour when its id had no
  entry, the stored one otherwise.  For the nodes of one dataset, each id keeping one
  colour, every selected node has its own colour stored, in every state reached by clicks
  and settling promises.
\<close>

theorem selection_color_semantics:
  "originalColors (selectNode n c) =
     (if originalColors c (vid n) = None then (originalColors c)(vid n \<mapsto> color n)
      else originalColors c)
   \<and> selectionColor (selectNode n c) =
       (if selectedNodes c = [] then Some (color n) else selectionColor c)
   \<and> selectedNodes (selectNode n c) = set_add (vid n) (selectedNodes c)
   \<and> queue_history (selectNode n c) =
       queue_history c @
         [\<lparr> ttype = Select, nodeId = vid n, targetColor = selectionColor (selectNode n c),
            connectedNodes = getConnectedNodes (edgeElements c) (vid n) \<rparr>]
   \<and> queue_history (unselectNode n c) =
       queue_history c @
         [\<lparr> ttype = Unselect, nodeId = vid n, targetColor = originalColors c (vid n),
            connectedNodes = getConnectedNodes (edgeElements c) (vid n) \<rparr>]
   \<and> selectedNodes (unselectNode n c) = set_delete (vid n) (selectedNodes c)
   \<and> selectionColor (unselectNode n c) =
       (if set_delete (vid n) (selectedNodes c) = [] then None else selectionColor c)
   \<and> originalColors (unselectNode n c) = originalColors c
   \<and> selectedNodes (transitionSettled res c) = selectedNodes c
   \<and> selectionColor (transitionSettled res c) = selectionColor c
   \<and> originalColors (transitionSettled res c) = originalColors c
   \<and> (originalColors c i = Some orig \<longrightarrow>
        originalColors (fold controller_step evs c) i = Some orig)
   \<and> (selectedNodes c = [] \<and>
       (\<forall>k \<le> length evs.
           selectedNodes (fold controller_step (take k evs) (selectNode n c)) \<noteq> []) \<longrightarrow>
        selectionColor (fold controller_step evs (selectNode n c)) = Some (color n) \<and>
        (vid m \<notin> set (selectedNodes (fold controller_step evs (selectNode n c))) \<longrightarrow>
           queue_history (controller_step (NodeClick m)
                            (fold controller_step evs (selectNode n c))) =
           queue_history (fold controller_step evs (selectNode n c)) @
             [\<lparr> ttype = Select, nodeId = vid m, targetColor = Some (color n),
                connectedNodes =
                  getConnectedNodes
                    (edgeElements (fold controller_step evs (selectNode n c))) (vid m) \<rparr>]))
   \<and> queue_history (unselectNode n (selectNode n c)) =
       queue_history c @
         [\<lparr> ttype = Select, nodeId = vid n, targetColor = selectionColor (selectNode n c),
            connectedNodes = getConnectedNodes (edgeElements c) (vid n) \<rparr>,
          \<lparr> ttype = Unselect, nodeId = vid n,
            targetColor = Some (case originalColors c (vid n) of
                                  None \<Rightarrow> color n | Some orig \<Rightarrow> orig),
            connectedNodes = getConnectedNodes (edgeElements c) (vid n) \<rparr>]
   \<and> (j \<in> set (selectedNodes (dataset_after col edges devs)) \<longrightarrow>
        originalColors (dataset_after col edges devs) j = Some (col j))"
proof -
  let ?run = "fold controller_step evs (selectNode n c)"
  have steps:
    "originalColors (selectNode n c) =
       (if originalColors c (vid n) = None then (originalColors c)(vid n \<mapsto> color n)
        else originalColors c)"
    "selectionColor (selectNode n c) =
       (if selectedNodes c = [] then Some (color n) else selectionColor c)"
    "selectedNodes (selectNode n c) = set_add (vid n) (selectedNodes c)"
    "selectedNodes (unselectNode n c) = set_delete (vid n) (selectedNodes c)"
    "selectionColor (unselectNode n c) =
       (if set_delete (vid n) (selectedNodes c) = [] then None else selectionColor c)"
    "originalColors (unselectNode n c) = originalColors c"
    by (simp_all add: selectNode_fields unselectNode_fields)
  have hist:
    "queue_history (selectNode n c) =
       queue_history c @
         [\<lparr> ttype = Select, nodeId = vid n, targetColor = selectionColor (selectNode n c),
            connectedNodes = getConnectedNodes (edgeElements c) (vid n) \<rparr>]"
    "queue_history (unselectNode n c) =
       queue_history c @
         [\<lparr> ttype = Unselect, nodeId = vid n, targetColor = originalColors c (vid n),
            connectedNodes = getConnectedNodes (edgeElements c) (vid n) \<rparr>]"
    by (simp_all add: selectNode_fields selectNode_history unselectNode_history)
  have both: "queue_history (unselectNode n (selectNode n c)) =
       queue_history c @
         [\<lparr> ttype = Select, nodeId = vid n, targetColor = selectionColor (selectNode n c),
            connectedNodes = getConnectedNodes (edgeElements c) (vid n) \<rparr>,
          \<lparr> ttype = Unselect, nodeId = vid n,
            targetColor = Some (case originalColors c (vid n) of
                                  None \<Rightarrow> color n | Some orig \<Rightarrow> orig),
            connectedNodes = getConnectedNodes (edgeElements c) (vid n) \<rparr>]"
    by (auto simp: selectNode_fields selectNode_history unselectNode_history)
  have keep: "originalColors c i = Some orig \<longrightarrow>
        originalColors (fold controller_step evs c) i = Some orig"
    using run_keeps_original [of c i orig evs] by simp
  have trace: "selectedNodes c = [] \<and>
       (\<forall>k \<le> length evs.
           selectedNodes (fold controller_step (take k evs) (selectNode n c)) \<noteq> []) \<longrightarrow>
        selectionColor ?run = Some (color n) \<and>
        (vid m \<notin> set (selectedNodes ?run) \<longrightarrow>
           queue_history (controller_step (NodeClick m) ?run) =
           queue_history ?run @
             [\<lparr> ttype = Select, nodeId = vid m, targetColor = Some (color n),
                connectedNodes = getConnectedNodes (edgeElements ?run) (vid m) \<rparr>])"
  proof (intro impI)
    assume h: "selectedNodes c = [] \<and>
       (\<forall>k \<le> length evs.
           selectedNodes (fold controller_step (take k evs) (selectNode n c)) \<noteq> [])"
    have first: "selectedNodes (selectNode n c) \<noteq> []"
      by (auto simp: selectNode_fields set_add_def)
    have col: "selectionColor ?run = Some (color n)"
      using run_keeps_selectionColor [OF first, of evs] h by (simp add: selectNode_fields)
    have ne: "selectedNodes ?run \<noteq> []"
      using h [THEN conjunct2, rule_format, of "length evs"] by simp
    show "selectionColor ?run = Some (color n) \<and>
        (vid m \<notin> set (selectedNodes ?run) \<longrightarrow>
           queue_history (controller_step (NodeClick m) ?run) =
           queue_history ?run @
             [\<lparr> ttype = Select, nodeId = vid m, targetColor = Some (color n),
                connectedNodes = getConnectedNodes (edgeElements ?run) (vid m) \<rparr>])"
      using col ne by (simp add: handleNodeClick_def selectNode_history)
  qed
  have ds: "j \<in> set (selectedNodes (dataset_after col edges devs)) \<longrightarrow>
        originalColors (dataset_after col edges devs) j = Some (col j)"
    using dataset_invariants [of col edges devs]
    by (auto simp: colors_of_def selected_known_def)
  from steps hist both keep trace ds show ?thesis
    by (simp only: transitionSettled_fields simp_thms)
qed

text \<open>The theorem on a fresh controller: click a (red), click b (blue), click a again,
  click c (green).  After the third click b alone is selected and the selection colour
  is still red; the selection of c targets red.\<close>

theorem selection_color_semantics_witness:
  "selectionColor (controller_after []
      [NodeClick \<lparr>vid = ''a'', color = ''red''\<rparr>, NodeClick \<lparr>vid = ''b'', color = ''blue''\<rparr>,
       NodeClick \<lparr>vid = ''a'', color = ''red''\<rparr>]) = Some ''red''
   \<and> selectedNodes (controller_after []
      [NodeClick \<lparr>vid = ''a'', color = ''red''\<rparr>, NodeClick \<lparr>vid = ''b'', color = ''blue''\<rparr>,
       NodeClick \<lparr>vid = ''a'', color = ''red''\<rparr>]) = [''b'']
   \<and> map (\<lambda>t. (ttype t, nodeId t, targetColor t))
       (queue_history (controller_after []
          [NodeClick \<lparr>vid = ''a'', color = ''red''\<rparr>, NodeClick \<lparr>vid = ''b'', color = ''blue''\<rparr>,
           NodeClick \<lparr>vid = ''a'', color = ''red''\<rparr>, NodeClick \<lparr>vid = ''c'', color = ''green''\<rparr>])) =
       [(Select, ''a'', Some ''red''), (Select, ''b'', Some ''red''),
        (Unselect, ''a'', Some ''red''), (Select, ''c'', Some ''red'')]
   \<and> originalColors (dataset_after (\<lambda>i. if i = ''a'' then ''red'' else ''blue'') []
        [Click ''a'', Click ''b'']) ''b'' = Some ''blue''"
proof -
  let ?a = "\<lparr>vid = ''a'', color = ''red''\<rparr>" and ?b = "\<lparr>vid = ''b'', color = ''blue''\<rparr>"
  let ?c = "\<lparr>vid = ''c'', color = ''green''\<rparr>"
  let ?col = "\<lambda>i. if i = ''a'' then ''red'' else ''blue''"
  let ?new = "new_controller []"
  let ?evs = "[NodeClick ?b, NodeClick ?a]"
  let ?run = "fold controller_step ?evs (selectNode ?a ?new)"
  have run: "controller_after [] [NodeClick ?a, NodeClick ?b, NodeClick ?a] = ?run"
    by (simp add: controller_after_def handleNodeClick_def new_controller_fields)
  have run4: "controller_after [] [NodeClick ?a, NodeClick ?b, NodeClick ?a, NodeClick ?c] =
                controller_step (NodeClick ?c) ?run"
    by (simp add: controller_after_def handleNodeClick_def new_controller_fields)
  have staying: "\<forall>k \<le> length ?evs.
      selectedNodes (fold controller_step (take k ?evs) (selectNode ?a ?new)) \<noteq> []"
  proof (intro allI impI)
    fix k assume "k \<le> length ?evs"
    then have "k = 0 \<or> k = 1 \<or> k = 2" by auto
    then show "selectedNodes (fold controller_step (take k ?evs) (selectNode ?a ?new)) \<noteq> []"
      by (elim disjE) (simp_all add: click_eval)
  qed
  have sel: "selectedNodes ?run = [''b'']"
    by (simp add: click_eval)
  have hist: "map (\<lambda>t. (ttype t, nodeId t, targetColor t)) (queue_history ?run) =
       [(Select, ''a'', Some ''red''), (Select, ''b'', Some ''red''),
        (Unselect, ''a'', Some ''red'')]"
    by (simp add: click_eval)
  have dsel: "selectedNodes (dataset_after ?col [] [Click ''a'', Click ''b'']) = [''a'', ''b'']"
    by (simp add: click_eval)
  note inst = selection_color_semantics [where c = ?new and n = ?a and evs = ?evs and m = ?c
      and col = ?col and edges = "[]" and devs = "[Click ''a'', Click ''b'']" and j = "''b''"]
  have color: "selectionColor ?run = Some ''red''"
    using inst staying by (simp add: new_controller_fields)
  have next_select: "queue_history (controller_step (NodeClick ?c) ?run) =
      queue_history ?run @
        [\<lparr> ttype = Select, nodeId = ''c'', targetColor = Some ''red'',
           connectedNodes = getConnectedNodes (edgeElements ?run) ''c'' \<rparr>]"
    using inst staying sel by (simp add: new_controller_fields)
  have orig: "originalColors (dataset_after ?col [] [Click ''a'', Click ''b'']) ''b'' = Some ''blue''"
    using inst dsel by simp
  show ?thesis
    unfolding run run4 using color sel hist next_select orig by simp
qed

text \<open>
  Claim C2 as it was stated fails on its last clause.  The node a is selected and
  unselected while red; its colour then changes to pink; selected and unselected again,
  it is sent back to red, the colour stored at its first selection, not to the pink it
  had before this selection.
\<close>

theorem selection_color_counterexample:
  "map (\<lambda>t. (ttype t, nodeId t, targetColor t))
     (queue_history (controller_after []
        [NodeClick \<lparr>vid = ''a'', color = ''red''\<rparr>, NodeClick \<lparr>vid = ''a'', color = ''red''\<rparr>,
         NodeClick \<lparr>vid = ''a'', color = ''pink''\<rparr>, NodeClick \<lparr>vid = ''a'', color = ''pink''\<rparr>])) =
     [(Select, ''a'', Some ''red''), (Unselect, ''a'', Some ''red''),
      (Select, ''a'', Some ''pink''), (Unselect, ''a'', Some ''red'')]
   \<and> selectedNodes (controller_after []
        [NodeClick \<lparr>vid = ''a'', color = ''red''\<rparr>, NodeClick \<lparr>vid = ''a'', color = ''red''\<rparr>]) = []
   \<and> Some ''red'' \<noteq> Some ''pink''"
  by (simp add: click_eval)

subsection \<open>Unselecting the last selected node\<close>

text \<open>
  Claim C9.  When the node clicked is the only selected one, the click unselects it and
  takes the restore-all path: the selection is empty and \<open>selectionColor\<close> cleared,
  \<open>selectionCleared\<close> is emitted and then \<open>nodeUnselected\<close> with the empty
  selection, and the one transition queued is the node's own \<open>unselect\<close>: the restore
  loop runs over the empty selection.
\<close>

theorem unselect_last_clears_selection:
  "selectedNodes c = [vid n] \<Longrightarrow>
     handleNodeClick (Some n) c = unselectNode n c
     \<and> selectedNodes (unselectNode n c) = []
     \<and> selectionColor (unselectNode n c) = None
     \<and> emitted (unselectNode n c) = emitted c @ [SelectionCleared, NodeUnselected (vid n) []]
     \<and> queue_history (unselectNode n c) =
         queue_history c @
           [\<lparr> ttype = Unselect, nodeId = vid n, targetColor = originalColors c (vid n),
              connectedNodes = getConnectedNodes (edgeElements c) (vid n) \<rparr>]"
  by (simp add: handleNodeClick_def unselectNode_fields unselectNode_history set_delete_def)


text \<open>The theorem after one click on a node a: a second click on a.\<close>

theorem unselect_last_clears_selection_witness:
  "selectedNodes (controller_after [] [NodeClick \<lparr>vid = ''a'', color = ''red''\<rparr>]) = [''a'']
   \<and> emitted (controller_after []
        [NodeClick \<lparr>vid = ''a'', color = ''red''\<rparr>, NodeClick \<lparr>vid = ''a'', color = ''red''\<rparr>]) =
       [NodeSelected ''a'' [''a''], SelectionCleared, NodeUnselected ''a'' []]
   \<and> selectionColor (controller_after []
        [NodeClick \<lparr>vid = ''a'', color = ''red''\<rparr>, NodeClick \<lparr>vid = ''a'', color = ''red''\<rparr>]) = None
   \<and> map (\<lambda>t. (ttype t, nodeId t, targetColor t)) (queue_history (controller_after []
        [NodeClick \<lparr>vid = ''a'', color = ''red''\<rparr>, NodeClick \<lparr>vid = ''a'', color = ''red''\<rparr>])) =
       [(Select, ''a'', Some ''red''), (Unselect, ''a'', Some ''red'')]"
proof -
  let ?a = "\<lparr>vid = ''a'', color = ''red''\<rparr>"
  let ?c = "controller_after [] [NodeClick ?a]"
  have sel: "selectedNodes ?c = [vid ?a]"
    by (simp add: after_click_a)
  have after: "controller_after [] [NodeClick ?a, NodeClick ?a] = handleNodeClick (Some ?a) ?c"
    using controller_after_snoc [of "[]" "[NodeClick ?a]" "NodeClick ?a"] by simp
  have base: "emitted ?c = [NodeSelected ''a'' [''a'']]"
    "map (\<lambda>t. (ttype t, nodeId t, targetColor t)) (queue_history ?c) = [(Select, ''a'', Some ''red'')]"
    "originalColors ?c ''a'' = Some ''red''"
    by (simp_all add: after_click_a queue_history_def)
  show ?thesis
    using unselect_last_clears_selection [OF sel] sel base
    unfolding after by simp
qed

section \<open>Properties of the NetworkSimulation\<close>

text \<open>The energy after a restart is \<open>0.98 ^ n\<close> at the \<open>n\<close>-th tick; it is above
  \<open>alphaMin\<close> up to tick 341 and below it at tick 342.\<close>

lemma pow342: "(49/50::real)^342 < 1/1000"
proof -
  have a: "(49/50::real)^18 \<le> 21723/31250"
    by (simp add: power_divide)
  have "(49/50::real)^342 = ((49/50)^18)^19"
    by (simp add: power_mult [symmetric])
  also have "\<dots> \<le> (21723/31250)^19"
    using a by (intro power_mono) simp_all
  also have "\<dots> < 1/1000"
    by (simp add: power_divide)
  finally show ?thesis .
qed

lemma pow341: "(1/1000::real) \<le> (49/50)^341"
proof -
  have a: "(8007/10000::real) \<le> (49/50)^11"
    by (simp add: power_divide)
  have "(1/1000::real) \<le> (8007/10000)^31"
    by (simp add: power_divide)
  also have "\<dots> \<le> ((49/50)^11)^31"
    using a by (intro power_mono) simp_all
  also have "\<dots> = (49/50)^341"
    by (simp add: power_mult [symmetric])
  finally show ?thesis .
qed

lemma pow_le_341: "n \<le> 341 \<Longrightarrow> (1/1000::real) \<le> (49/50)^n"
proof -
  assume "n \<le> 341"
  then have "(49/50::real)^341 \<le> (49/50)^n"
    by (intro power_decreasing) simp_all
  then show ?thesis using pow341 by linarith
qed

lemma completions_update [simp]:
  "completions (sim\<lparr> alpha := a \<rparr>) = completions sim"
  "completions (sim\<lparr> timer_on := b \<rparr>) = completions sim"
  "completions (sim\<lparr> isRunning := b \<rparr>) = completions sim"
  "completions (sim\<lparr> tickCount := n \<rparr>) = completions sim"
  by (simp_all add: completions_def)

lemma onSimulationEnd_fields:
  "alpha (onSimulationEnd sim) = alpha sim"
  "timer_on (onSimulationEnd sim) = timer_on sim"
  "maxTicks (onSimulationEnd sim) = maxTicks sim"
  "tickCount (onSimulationEnd sim) = tickCount sim"
  "complete_registered (onSimulationEnd sim) = complete_registered sim"
  "isRunning (onSimulationEnd sim) = False"
  "completions (onSimulationEnd sim) = completions sim + (if complete_registered sim then 1 else 0)"
  by (simp_all add: onSimulationEnd_def Let_def completions_def)

lemma onTick_fields:
  "alpha (onTick sim) = alpha sim"
  "timer_on (onTick sim) = timer_on sim"
  "maxTicks (onTick sim) = maxTicks sim"
  "complete_registered (onTick sim) = complete_registered sim"
  "tickCount (onTick sim) = (if isRunning sim then tickCount sim + 1 else tickCount sim)"
  "isRunning (onTick sim) = (isRunning sim \<and> tickCount sim + 1 < maxTicks sim)"
  "completions (onTick sim) =
     completions sim + (if isRunning sim \<and> maxTicks sim \<le> tickCount sim + 1 \<and> complete_registered sim then 1 else 0)"
  by (simp_all add: onTick_def Let_def onSimulationEnd_fields) (simp_all add: completions_def)

text \<open>One firing of a running timer, field by field.\<close>

lemma d3_step_fields:
  assumes "timer_on sim"
  shows "alpha (d3_step sim) = alpha sim * (49/50)"
    and "timer_on (d3_step sim) = (\<not> alpha sim * (49/50) < 1/1000)"
    and "maxTicks (d3_step sim) = maxTicks sim"
    and "complete_registered (d3_step sim) = complete_registered sim"
    and "tickCount (d3_step sim) = (if isRunning sim then tickCount sim + 1 else tickCount sim)"
    and "isRunning (d3_step sim) =
           (isRunning sim \<and> tickCount sim + 1 < maxTicks sim \<and> \<not> alpha sim * (49/50) < 1/1000)"
    and "completions (d3_step sim) =
           completions sim
           + (if isRunning sim \<and> maxTicks sim \<le> tickCount sim + 1 \<and> complete_registered sim
              then 1 else 0)
           + (if alpha sim * (49/50) < 1/1000 \<and> complete_registered sim then 1 else 0)"
  using assms
  by (simp_all add: d3_step_def alphaTarget_def alphaDecay_def alphaMin_def Let_def
        onTick_fields onSimulationEnd_fields algebra_simps)

lemma run_ticks_Suc: "run_ticks (Suc n) sim = d3_step (run_ticks n sim)"
  by (simp add: run_ticks_def)

text \<open>The state of a run after \<open>n\<close> firings of the timer, while the energy is above
  the threshold: the wrapper declares the run over at tick 300, the timer goes on.\<close>

lemma run_before_convergence:
  assumes "complete_registered sim" "maxTicks sim = 300" "n \<le> 341"
  shows "timer_on (run_ticks n sim) \<and> alpha (run_ticks n sim) = (49/50)^n \<and>
         maxTicks (run_ticks n sim) = 300 \<and> complete_registered (run_ticks n sim) \<and>
         isRunning (run_ticks n sim) = (n < 300) \<and>
         tickCount (run_ticks n sim) = min n 300 \<and>
         completions (run_ticks n sim) = completions sim + (if n < 300 then 0 else 1)"
  using assms(3)
proof (induction n)
  case 0
  show ?case using assms(1,2)
    by (simp add: run_ticks_def restart_def completions_def)
next
  case (Suc n)
  let ?s = "run_ticks n sim"
  have ih: "timer_on ?s" "alpha ?s = (49/50)^n" "maxTicks ?s = 300" "complete_registered ?s"
    "isRunning ?s = (n < 300)" "tickCount ?s = min n 300"
    "completions ?s = completions sim + (if n < 300 then 0 else 1)"
    using Suc by simp_all
  have big: "\<not> alpha ?s * (49/50) < 1/1000"
    using pow_le_341 [of "Suc n"] Suc.prems ih(2) by simp
  show ?case
    unfolding run_ticks_Suc
    using big ih(2-) by (simp add: d3_step_fields [OF ih(1)])
qed

lemma run_at_convergence:
  assumes "complete_registered sim" "maxTicks sim = 300"
  shows "\<not> timer_on (run_ticks 342 sim) \<and> completions (run_ticks 342 sim) = completions sim + 2"
proof -
  let ?s = "run_ticks 341 sim"
  have ih: "timer_on ?s" "alpha ?s = (49/50)^341" "maxTicks ?s = 300" "complete_registered ?s"
    "isRunning ?s = False" "completions ?s = completions sim + 1"
    using run_before_convergence [OF assms, of 341] by simp_all
  have "(342::nat) = Suc 341" by simp
  then have step: "run_ticks 342 sim = d3_step ?s"
    by (simp only: run_ticks_Suc)
  have "(49/50::real)^342 = (49/50)^341 * (49/50)"
    by (simp only: \<open>(342::nat) = Suc 341\<close> power_Suc2)
  then have small: "alpha ?s * (49/50) < 1/1000"
    using pow342 ih(2) by simp
  show ?thesis
    unfolding step using small ih(2-) by (simp add: d3_step_fields [OF ih(1)])
qed

text \<open>
  Claim C3.  A run with a completion callback registered: the callback has not fired
  after 299 ticks; it fires at tick 300, when \<open>tickCount\<close> reaches \<open>maxTicks\<close>, and
  d3's timer keeps running, since \<open>_onSimulationEnd\<close> does not stop it; it has fired
  once up to tick 341; at tick 342 the energy falls below \<open>alphaMin\<close>, d3 stops its timer
  and sends \<open>end\<close>, and \<open>_onSimulationEnd\<close> fires the callback a second time in the
  same run.
\<close>

theorem completion_fires_twice:
  "completions (run_ticks 299 (onStabilizationComplete new_NetworkSimulation)) = 0
   \<and> completions (run_ticks 300 (onStabilizationComplete new_NetworkSimulation)) = 1
   \<and> timer_on (run_ticks 300 (onStabilizationComplete new_NetworkSimulation))
   \<and> completions (run_ticks 341 (onStabilizationComplete new_NetworkSimulation)) = 1
   \<and> completions (run_ticks 342 (onStabilizationComplete new_NetworkSimulation)) = 2
   \<and> \<not> timer_on (run_ticks 342 (onStabilizationComplete new_NetworkSimulation))"
proof -
  let ?sim = "onStabilizationComplete new_NetworkSimulation"
  have a: "complete_registered ?sim" "maxTicks ?sim = 300" "completions ?sim = 0"
    by (simp_all add: onStabilizationComplete_def new_NetworkSimulation_def completions_def)
  show ?thesis
    using run_before_convergence [OF a(1,2), of 299] run_before_convergence [OF a(1,2), of 300]
      run_before_convergence [OF a(1,2), of 341] run_at_convergence [OF a(1,2)] a(3)
    by simp
qed

section \<open>Properties of \<open>updateData\<close>\<close>

text \<open>
  Claim C5, as amended.  Once initialized, \<open>updateData\<close> makes its calls in this order:
  \<open>DataProcessor.processData\<close> on the data first, then \<open>Renderer.updateElements\<close>
  with the processed entities, then \<open>stop\<close> of the running layout, then \<open>setData\<close>
  with the processed entities, and last \<open>restart\<close>, which leaves the layout running at
  full energy (alpha 1) with its tick counter at 0.  If \<open>updateElements\<close> throws, the
  calls end there and the layout is left as it was.
\<close>

theorem updateData_order:
  "isInitialized v \<Longrightarrow>
     component_calls (fst (updateData f E nodesData edgesData v)) =
       component_calls v @
       [ProcessData nodesData edgesData,
        UpdateElements (processedNodes (processData E nodesData edgesData))
                       (processedEdges (processData E nodesData edgesData))] @
       (if updateElements_throws f then []
        else [SimulationStop,
              SimulationSetData (processedNodes (processData E nodesData edgesData))
                                (processedEdges (processData E nodesData edgesData)),
              SimulationRestart])
     \<and> snd (updateData f E nodesData edgesData v) =
         (if updateElements_throws f then Some UpdateFailed else None)
     \<and> layout (fst (updateData f E nodesData edgesData v)) =
         (if updateElements_throws f then layout v
          else restart (setData (stop (layout v))))
     \<and> alpha (restart (setData (stop (layout v)))) = 1
     \<and> isRunning (restart (setData (stop (layout v))))
     \<and> timer_on (restart (setData (stop (layout v))))
     \<and> tickCount (restart (setData (stop (layout v)))) = 0"
  by (simp add: updateData_def Let_def restart_def setData_def stop_def)

text \<open>The theorem on an initialized controller and empty data.\<close>

theorem updateData_order_witness:
  "component_calls (fst (updateData \<lparr>renderer_initialize_throws = False, updateElements_throws = False\<rparr>
       example_engine [] []
       \<lparr>isInitialized = True, layout = new_NetworkSimulation, component_calls = []\<rparr>)) =
     [ProcessData [] [], UpdateElements [] [], SimulationStop, SimulationSetData [] [],
      SimulationRestart]
   \<and> alpha (layout (fst (updateData \<lparr>renderer_initialize_throws = False, updateElements_throws = False\<rparr>
       example_engine [] []
       \<lparr>isInitialized = True, layout = new_NetworkSimulation, component_calls = []\<rparr>))) = 1"
  using updateData_order [where f = "\<lparr>renderer_initialize_throws = False, updateElements_throws = False\<rparr>"
      and E = example_engine and nodesData = "[]" and edgesData = "[]"
      and v = "\<lparr>isInitialized = True, layout = new_NetworkSimulation, component_calls = []\<rparr>"]
  by (simp add: processData_def processNodes_def non_null_def console_lines_def)

text \<open>
  Claim C5 as it was stated fails: the layout is not stopped first.  On an initialized
  controller the first call is \<open>processData\<close>, and \<open>stop\<close> is the third.
\<close>

theorem updateData_order_counterexample:
  "component_calls (fst (updateData \<lparr>renderer_initialize_throws = False, updateElements_throws = False\<rparr>
       example_engine [] []
       \<lparr>isInitialized = True, layout = new_NetworkSimulation, component_calls = []\<rparr>)) \<noteq>
     [SimulationStop, ProcessData [] [], UpdateElements [] [], SimulationSetData [] [],
      SimulationRestart]
   \<and> hd (component_calls (fst (updateData \<lparr>renderer_initialize_throws = False, updateElements_throws = False\<rparr>
       example_engine [] []
       \<lparr>isInitialized = True, layout = new_NetworkSimulation, component_calls = []\<rparr>))) =
     ProcessData [] []
   \<and> component_calls (fst (updateData \<lparr>renderer_initialize_throws = False, updateElements_throws = False\<rparr>
       example_engine [] []
       \<lparr>isInitialized = True, layout = new_NetworkSimulation, component_calls = []\<rparr>)) ! 2 =
     SimulationStop"
  by (simp add: updateData_def Let_def processData_def processNodes_def non_null_def
        console_lines_def)

section \<open>Properties of the colour-flow animation\<close>

text \<open>Every edge the loop visits is incident to the node, so the callback throws at the
  first one.\<close>

lemma edge_callback_incident:
  "vid (vsource d) = n \<or> vid (vtarget d) = n \<Longrightarrow> edge_callback n q isRev d r = Inl ReferenceError"
  by (auto simp: edge_callback_def)

lemma each_edge_incident:
  "each_edge n q isRev (filter (\<lambda>d. vid (vsource d) = n \<or> vid (vtarget d) = n) es) r =
     (if filter (\<lambda>d. vid (vsource d) = n \<or> vid (vtarget d) = n) es = [] then None
      else Some ReferenceError, r)"
proof (cases "filter (\<lambda>d. vid (vsource d) = n \<or> vid (vtarget d) = n) es")
  case Nil
  then show ?thesis by simp
next
  case (Cons d ds)
  then have "d \<in> set (filter (\<lambda>d. vid (vsource d) = n \<or> vid (vtarget d) = n) es)"
    by simp
  then have "vid (vsource d) = n \<or> vid (vtarget d) = n"
    by simp
  then show ?thesis
    using Cons by (simp add: edge_callback_incident)
qed

text \<open>The whole of \<open>animateColorTransition\<close>: a node with an incident edge has its promise
  rejected at once and no timer set; a node without one has the completion timer set.\<close>

lemma animateColorTransition_cases:
  "animateColorTransition n col q isRev r =
     (length (promises r),
      if filter (\<lambda>d. vid (vsource d) = n \<or> vid (vtarget d) = n) (edge_data r) = []
      then r\<lparr> promises := promises r @ [PromisePending],
              fill_transitions := fill_transitions r @ [(clock r, n, col)],
              timers := add_timer (clock r + 300, TransitionComplete (length (promises r)))
                          (timers r) \<rparr>
      else r\<lparr> promises := promises r @ [PromiseRejected (clock r) ReferenceError],
              fill_transitions := fill_transitions r @ [(clock r, n, col)] \<rparr>)"
  by (simp add: animateColorTransition_def Let_def each_edge_incident)

lemma hops_add_timer:
  "filter is_hop (add_timer (due, TransitionComplete p) ts) = filter is_hop ts"
  by (induction ts) (simp_all add: is_hop_def)

lemma animateColorTransition_no_hop:
  "filter is_hop (timers (snd (animateColorTransition n col q isRev r))) = filter is_hop (timers r)"
  "node_queues (snd (animateColorTransition n col q isRev r)) = node_queues r"
  "edge_data (snd (animateColorTransition n col q isRev r)) = edge_data r"
  by (simp_all add: animateColorTransition_cases hops_add_timer)

lemma fire_completion:
  "\<not> is_hop (due, task) \<Longrightarrow>
     node_queues (fire task r) = node_queues r \<and> timers (fire task r) = timers r"
  by (cases task) (simp_all add: is_hop_def fire_def)

lemma run_timers_no_hop:
  "filter is_hop (timers r) = [] \<Longrightarrow> node_queues (run_timers fuel t r) = node_queues r"
proof (induction fuel arbitrary: r)
  case 0
  then show ?case by simp
next
  case (Suc fuel)
  show ?case
  proof (cases "timers r")
    case Nil
    then show ?thesis by simp
  next
    case (Cons x rest)
    obtain due task where x: "x = (due, task)" by (cases x)
    have nh: "\<not> is_hop (due, task)" and rest: "filter is_hop rest = []"
      using Suc.prems Cons x by (auto split: if_splits)
    let ?r = "r\<lparr> clock := max (clock r) due, timers := rest \<rparr>"
    have "filter is_hop (timers (fire task ?r)) = []"
      using fire_completion [OF nh, of ?r] rest by simp
    then have "node_queues (run_timers fuel t (fire task ?r)) = node_queues (fire task ?r)"
      by (rule Suc.IH)
    then show ?thesis
      using Cons x fire_completion [OF nh, of ?r] by simp
  qed
qed

lemma start_transition_no_hop:
  "filter is_hop (timers (snd (start_transition n col queue isRev (new_renderer edges)))) = []"
  "node_queues (snd (start_transition n col queue isRev (new_renderer edges))) = [queue]"
  by (simp_all add: start_transition_def animateColorTransition_no_hop new_renderer_def)

text \<open>
  Claim C4.  A transition started on a fresh renderer: no timer for a hop is ever set, and
  however long the timers run the array of connected nodes is still whole, so no node is
  ever popped from it; the promise is rejected at once when the node has an incident edge
  and is pending otherwise.  On the graph of one edge a\<rightarrow>b: a transition of a with the
  queue [b] is rejected at time 0 with a \<open>ReferenceError\<close>, and up to 300 ms the only fill
  transition started is that of a; a transition of a node c without edges is resolved at
  300 ms.
\<close>

theorem color_flow_never_hops:
  "filter is_hop (timers (snd (start_transition n col queue isRev (new_renderer edges)))) = []
   \<and> node_queues (run_timers fuel t (snd (start_transition n col queue isRev (new_renderer edges))))
       = [queue]
   \<and> promises (snd (start_transition n col queue isRev (new_renderer edges))) =
       [if filter (\<lambda>d. vid (vsource d) = n \<or> vid (vtarget d) = n) edges = []
        then PromisePending else PromiseRejected 0 ReferenceError]
   \<and> promises (run_timers 5 300 (snd (start_transition ''a'' (Some ''red'')
        [\<lparr>vid = ''b'', color = ''blue''\<rparr>] False
        (new_renderer [\<lparr>vsource = \<lparr>vid = ''a'', color = ''green''\<rparr>,
                        vtarget = \<lparr>vid = ''b'', color = ''blue''\<rparr>\<rparr>])))) =
       [PromiseRejected 0 ReferenceError]
   \<and> fill_transitions (run_timers 5 300 (snd (start_transition ''a'' (Some ''red'')
        [\<lparr>vid = ''b'', color = ''blue''\<rparr>] False
        (new_renderer [\<lparr>vsource = \<lparr>vid = ''a'', color = ''green''\<rparr>,
                        vtarget = \<lparr>vid = ''b'', color = ''blue''\<rparr>\<rparr>])))) =
       [(0, ''a'', Some ''red'')]
   \<and> promises (run_timers 5 300 (snd (start_transition ''c'' (Some ''red'')
        [\<lparr>vid = ''b'', color = ''blue''\<rparr>] False
        (new_renderer [\<lparr>vsource = \<lparr>vid = ''a'', color = ''green''\<rparr>,
                        vtarget = \<lparr>vid = ''b'', color = ''blue''\<rparr>\<rparr>])))) =
       [PromiseResolved 300]"
proof -
  let ?ab = "new_renderer [\<lparr>vsource = \<lparr>vid = ''a'', color = ''green''\<rparr>,
                           vtarget = \<lparr>vid = ''b'', color = ''blue''\<rparr>\<rparr>]"
  let ?b = "[\<lparr>vid = ''b'', color = ''blue''\<rparr>]"
  have five: "(5::nat) = Suc (Suc (Suc (Suc (Suc 0))))" by simp
  have g1: "filter is_hop (timers (snd (start_transition n col queue isRev (new_renderer edges)))) = []"
    by (rule start_transition_no_hop)
  have g2: "node_queues (run_timers fuel t (snd (start_transition n col queue isRev (new_renderer edges))))
          = [queue]"
    using run_timers_no_hop [OF g1, of fuel t] by (simp add: start_transition_no_hop)
  have g3: "promises (snd (start_transition n col queue isRev (new_renderer edges))) =
       [if filter (\<lambda>d. vid (vsource d) = n \<or> vid (vtarget d) = n) edges = []
        then PromisePending else PromiseRejected 0 ReferenceError]"
    by (simp add: start_transition_def animateColorTransition_cases new_renderer_def)
  have c1: "promises (run_timers 5 300 (snd (start_transition ''a'' (Some ''red'') ?b False ?ab))) =
       [PromiseRejected 0 ReferenceError]"
    by (simp add: five start_transition_def animateColorTransition_cases new_renderer_def fire_def)
  have c2: "fill_transitions (run_timers 5 300 (snd (start_transition ''a'' (Some ''red'') ?b False ?ab))) =
       [(0, ''a'', Some ''red'')]"
    by (simp add: five start_transition_def animateColorTransition_cases new_renderer_def fire_def)
  have c3: "promises (run_timers 5 300 (snd (start_transition ''c'' (Some ''red'') ?b False ?ab))) =
       [PromiseResolved 300]"
    by (simp add: five start_transition_def animateColorTransition_cases new_renderer_def fire_def)
  from g1 g2 g3 c1 c2 c3 show ?thesis by (intro conjI)
qed

end
